theory Spec2Isabelle
  imports Main
begin

section \<open>The request orchestrator of backendSupabase (src/index.js)\<close>

text \<open>
  Every route of \<^verbatim>\<open>src/index.js\<close> validates its request, awaits one or more calls on
  the store client \<^verbatim>\<open>supabase\<close> and turns the answers into an HTTP response. The store
  is an external service, so a handler takes the store as a parameter: a record of the
  calls it makes, each a function from the state of the store to what the awaited call
  yields and the next state (a plain function for a handler that only reads). A handler
  returns the response it sends and the state it leaves. The handlers are then run on
  stores that answer from a script and record the calls, on tables held as lists, and on
  the stand-in client of \<^verbatim>\<open>supabaseClient.js\<close>.
\<close>

subsection \<open>What an awaited store call yields\<close>

text \<open>
  A store error is a JavaScript object with a \<^verbatim>\<open>message\<close> and an optional \<^verbatim>\<open>code\<close>
  and \<^verbatim>\<open>details\<close>. The same record stands for a thrown exception (a \<^verbatim>\<open>TypeError\<close>
  has a message only).
\<close>

record store_error =
  err_code :: "string option"
  err_message :: string
  err_details :: "string option"

text \<open>
  \<^verbatim>\<open>await q\<close> either resumes with the object \<^verbatim>\<open>{ data, error }\<close> (\<open>Resolved\<close>), or
  throws (\<open>Rejected\<close>: the promise was rejected, or building the call chain threw), or
  never resumes (\<open>Pending\<close>).
\<close>

datatype 'a awaited =
    Resolved "'a option" "store_error option"
  | Rejected store_error
  | Pending

text \<open>
  The response of a handler: a status code and a body, or no response at all when the
  handler is still waiting. The fixed texts of the source's error bodies (Portuguese,
  with accents) are the constructors of \<open>err_text\<close>; the comment gives the literal.
\<close>

datatype err_text =
    E_carregar_posts            \<comment> \<open>'Erro ao carregar posts'\<close>
  | E_obrigatorio string        \<comment> \<open>the template \<^verbatim>\<open>`${k} e obrigatorio`\<close>\<close>
  | E_tabela_contract_settings  \<comment> \<open>'Tabela contract_settings nao encontrada no banco. Execute
                                    create_contract_settings_table.sql no Supabase SQL Editor.'\<close>
  | E_upsert_manual             \<comment> \<open>'Erro ao salvar configuracoes de contrato (upsert manual falhou)'\<close>
  | E_salvar_config             \<comment> \<open>'Erro ao salvar configuracoes de contrato'\<close>
  | E_email_usuario             \<comment> \<open>'Email do usuario nao fornecido'\<close>
  | E_curtir                    \<comment> \<open>'Erro ao curtir post'\<close>
  | E_titulo_imagem_link        \<comment> \<open>'Titulo, imagem e link sao obrigatorios'\<close>
  | E_criar_produto             \<comment> \<open>'Erro ao criar produto'\<close>
  | E_listar_produtos           \<comment> \<open>'Erro ao listar produtos'\<close>
  | E_email_senha               \<comment> \<open>'Email e senha sao obrigatorios'\<close>
  | E_credenciais_invalidas     \<comment> \<open>'Credenciais invalidas'\<close>
  | E_timeout_banco             \<comment> \<open>'Timeout ao conectar com banco de dados'\<close>
  | E_login                     \<comment> \<open>'Erro ao realizar login'\<close>
  | E_nome_email_senha          \<comment> \<open>'nome, email e senha sao obrigatorios'\<close>
  | E_email_ja_cadastrado       \<comment> \<open>'Email ja cadastrado'\<close>
  | E_inserir_usuario           \<comment> \<open>'Erro ao inserir usuario'\<close>
  | E_insercao_sem_dados        \<comment> \<open>'Insercao nao retornou dados'\<close>
  | E_interno_criar_aluno       \<comment> \<open>'Erro interno ao criar aluno'\<close>
  | E_contract_end              \<comment> \<open>'contract_end e obrigatorio'\<close>
  | E_atualizar_contrato        \<comment> \<open>'Erro ao atualizar contrato'\<close>
  | E_treino_id                 \<comment> \<open>'treino id e obrigatorio na URL'\<close>
  | E_aluno_email               \<comment> \<open>'aluno_email e obrigatorio no body'\<close>
  | E_tabela_progresso          \<comment> \<open>'Tabela 'progresso' nao encontrada. Execute
                                    backend/create_progresso_table.sql no Supabase SQL Editor.'\<close>
  | E_marcar_treino             \<comment> \<open>'Erro ao marcar treino como concluido'\<close>
  | E_id_obrigatorio            \<comment> \<open>'id e obrigatorio'\<close>
  | E_id_invalido               \<comment> \<open>'id invalido'\<close>
  | E_aluno_nao_encontrado      \<comment> \<open>'Aluno nao encontrado'\<close>
  | E_buscar_aluno              \<comment> \<open>'Erro ao buscar aluno'\<close>
  | E_message string            \<comment> \<open>\<^verbatim>\<open>{ error: error.message }\<close>\<close>

text \<open>
  An error body keeps \<^verbatim>\<open>error\<close> and \<^verbatim>\<open>details\<close>; the further diagnostic fields some
  handlers add (\<^verbatim>\<open>code\<close>, \<^verbatim>\<open>hint\<close>, \<^verbatim>\<open>stack\<close>, \<^verbatim>\<open>timestamp\<close>) are left out.
\<close>

datatype 'a body =
    Fail err_text "string option"   \<comment> \<open>\<^verbatim>\<open>{ error, details }\<close>\<close>
  | Ok 'a

datatype 'a response = Respond nat "'a body" | Hang

text \<open>
  The idiom \<^verbatim>\<open>const { data, error } = await q; if (error) throw error\<close>: the handler
  goes on with \<^verbatim>\<open>data\<close>, or control passes to the enclosing \<^verbatim>\<open>catch\<close> with the
  error, or the handler never resumes.
\<close>

datatype 'a checked = Value "'a option" | Thrown store_error | Never

fun throw_on_error :: "'a awaited \<Rightarrow> 'a checked" where
  "throw_on_error (Resolved d None) = Value d"
| "throw_on_error (Resolved d (Some e)) = Thrown e"
| "throw_on_error (Rejected e) = Thrown e"
| "throw_on_error Pending = Never"

text \<open>\<^verbatim>\<open>data || []\<close>\<close>

definition or_empty :: "'a list option \<Rightarrow> 'a list" where
  "or_empty d = (case d of None \<Rightarrow> [] | Some xs \<Rightarrow> xs)"

subsection \<open>JavaScript built-ins used by the handlers\<close>

text \<open>
  \<^verbatim>\<open>parseInt(s)\<close> without radix: leading white space is skipped, a sign is read, a
  \<^verbatim>\<open>0x\<close> prefix selects base 16, and the longest prefix of digits is the value;
  without any digit the result is \<^verbatim>\<open>NaN\<close> (\<open>None\<close>). Strings are byte lists here and
  the value is an exact integer (a double is exact up to \<open>2 ^ 53\<close>).
\<close>

definition is_ws :: "char \<Rightarrow> bool" where
  "is_ws c = (let n = (of_char c :: nat) in (9 \<le> n \<and> n \<le> 13) \<or> n = 32)"

definition digit_of :: "nat \<Rightarrow> char \<Rightarrow> nat option" where
  "digit_of radix c =
     (let n = (of_char c :: nat);
          d = (if 48 \<le> n \<and> n \<le> 57 then Some (n - 48)
               else if 97 \<le> n \<and> n \<le> 122 then Some (n - 87)
               else if 65 \<le> n \<and> n \<le> 90 then Some (n - 55)
               else None)
      in case d of None \<Rightarrow> None | Some v \<Rightarrow> if v < radix then Some v else None)"

fun parse_digits :: "nat \<Rightarrow> nat option \<Rightarrow> string \<Rightarrow> nat option" where
  "parse_digits r acc [] = acc"
| "parse_digits r acc (c # cs) =
     (case digit_of r c of
        None \<Rightarrow> acc
      | Some d \<Rightarrow> parse_digits r (Some ((case acc of None \<Rightarrow> 0 | Some a \<Rightarrow> a) * r + d)) cs)"

definition strip_sign :: "string \<Rightarrow> bool \<times> string" where
  "strip_sign t =
     (case t of
        [] \<Rightarrow> (False, [])
      | c # cs \<Rightarrow> if c = CHR ''-'' then (True, cs)
                  else if c = CHR ''+'' then (False, cs) else (False, t))"

definition strip_radix :: "string \<Rightarrow> nat \<times> string" where
  "strip_radix u =
     (case u of
        a # b # cs \<Rightarrow> if a = CHR ''0'' \<and> (b = CHR ''x'' \<or> b = CHR ''X'') then (16, cs) else (10, u)
      | _ \<Rightarrow> (10, u))"

definition parseInt :: "string \<Rightarrow> int option" where
  "parseInt s =
     (let (neg, u) = strip_sign (dropWhile is_ws s);
          (r, v) = strip_radix u
      in case parse_digits r None v of
           None \<Rightarrow> None
         | Some n \<Rightarrow> Some (if neg then - int n else int n))"

text \<open>\<^verbatim>\<open>parseInt(s, 10)\<close>: as above in base 10, without the prefix rule.\<close>

definition parseInt10 :: "string \<Rightarrow> int option" where
  "parseInt10 s =
     (let (neg, u) = strip_sign (dropWhile is_ws s)
      in case parse_digits 10 None u of
           None \<Rightarrow> None
         | Some n \<Rightarrow> Some (if neg then - int n else int n))"

text \<open>
  \<^verbatim>\<open>s.trim()\<close> and \<^verbatim>\<open>s.toLowerCase()\<close> on byte strings: the ASCII white space and
  the ASCII capitals. JavaScript also strips the Unicode white space (U+00A0, U+FEFF and
  others) and lowers the capitals beyond ASCII; the two functions agree with it on ASCII
  strings, and every string evaluated below is ASCII.
\<close>

definition trim :: "string \<Rightarrow> string" where
  "trim s = rev (dropWhile is_ws (rev (dropWhile is_ws s)))"

definition lower_char :: "char \<Rightarrow> char" where
  "lower_char c =
     (case map_of (zip ''ABCDEFGHIJKLMNOPQRSTUVWXYZ'' ''abcdefghijklmnopqrstuvwxyz'') c of
        Some d \<Rightarrow> d
      | None \<Rightarrow> c)"

definition toLowerCase :: "string \<Rightarrow> string" where
  "toLowerCase s = map lower_char s"

text \<open>
  A field of a JSON body that holds a string or is missing. The empty string and a
  missing field are falsy; \<^verbatim>\<open>x || null\<close> keeps a truthy \<open>x\<close> only.
\<close>

definition truthy :: "string option \<Rightarrow> bool" where
  "truthy x = (case x of None \<Rightarrow> False | Some s \<Rightarrow> s \<noteq> [])"

definition or_null :: "string option \<Rightarrow> string option" where
  "or_null x = (if truthy x then x else None)"

text \<open>\<^verbatim>\<open>a || b\<close> on two such fields, and \<^verbatim>\<open>s.includes(sub)\<close>.\<close>

definition or_else :: "string option \<Rightarrow> string option \<Rightarrow> string option" where
  "or_else a b = (if truthy a then a else b)"

fun str_includes :: "string \<Rightarrow> string \<Rightarrow> bool" where
  "str_includes [] sub = (sub = [])"
| "str_includes (c # cs) sub = (take (length sub) (c # cs) = sub \<or> str_includes cs sub)"

text \<open>\<^verbatim>\<open>x || d\<close> on a number: \<^verbatim>\<open>NaN\<close> and \<^verbatim>\<open>0\<close> are falsy.\<close>

definition num_or :: "int option \<Rightarrow> int \<Rightarrow> int" where
  "num_or x d = (case x of None \<Rightarrow> d | Some n \<Rightarrow> if n = 0 then d else n)"

subsection \<open>GET /posts/feed/:limit/:offset\<close>

record post =
  post_id :: nat
  autor_email :: string
  conteudo :: string
  criado_em :: int

record comentario =
  com_post_id :: nat
  com_usuario_email :: string
  texto :: string
  com_criado_em :: int

record enriched_post =
  the_post :: post
  curtidas_count :: nat
  comentarios_count :: nat
  comentarios_preview :: "comentario list"

text \<open>
  The three queries the handler awaits: the page of posts,
  \<^verbatim>\<open>from('posts').select('*').order('criado_em', { ascending: false }).range(a, b)\<close>,
  and for each post the exact count of its likes and its three latest comments.
\<close>

record feed_store =
  posts_page :: "int \<Rightarrow> int \<Rightarrow> post list awaited"
  likes_count :: "nat \<Rightarrow> nat awaited"
  latest_comments :: "nat \<Rightarrow> comentario list awaited"

definition feed_limit :: "int option \<Rightarrow> int" where
  "feed_limit p = min (num_or p 20) 100"

definition feed_offset :: "int option \<Rightarrow> int" where
  "feed_offset p = max (num_or p 0) 0"

text \<open>
  The promise of an async callback: fulfilled with a value, rejected with an error, or
  never settled.
\<close>

datatype 'a promise = Fulfilled 'a | Failed store_error | Unsettled

text \<open>
  The callback of \<^verbatim>\<open>posts.map\<close>: two awaits, whose \<^verbatim>\<open>error\<close> fields are not read
  (\<^verbatim>\<open>curtidas || 0\<close>, \<^verbatim>\<open>comentarios?.length || 0\<close>, \<^verbatim>\<open>comentarios || []\<close>).
\<close>

definition enrich :: "feed_store \<Rightarrow> post \<Rightarrow> enriched_post promise" where
  "enrich st p =
     (case likes_count st (post_id p) of
        Pending \<Rightarrow> Unsettled
      | Rejected e \<Rightarrow> Failed e
      | Resolved cnt _ \<Rightarrow>
          (case latest_comments st (post_id p) of
             Pending \<Rightarrow> Unsettled
           | Rejected e \<Rightarrow> Failed e
           | Resolved cs _ \<Rightarrow>
               Fulfilled \<lparr> the_post = p,
                           curtidas_count = (case cnt of None \<Rightarrow> 0 | Some n \<Rightarrow> n),
                           comentarios_count = length (or_empty cs),
                           comentarios_preview = or_empty cs \<rparr>))"

text \<open>
  \<^verbatim>\<open>Promise.all\<close>: rejected as soon as one promise is rejected (the first one in list
  order is taken here), unsettled while one is unsettled, else fulfilled with the values
  in order.
\<close>

fun first_failed :: "'a promise list \<Rightarrow> store_error option" where
  "first_failed [] = None"
| "first_failed (Failed e # rs) = Some e"
| "first_failed (_ # rs) = first_failed rs"

fun all_fulfilled :: "'a promise list \<Rightarrow> 'a list option" where
  "all_fulfilled [] = Some []"
| "all_fulfilled (Fulfilled x # rs) =
     (case all_fulfilled rs of None \<Rightarrow> None | Some xs \<Rightarrow> Some (x # xs))"
| "all_fulfilled (_ # rs) = None"

definition promise_all :: "'a promise list \<Rightarrow> 'a list promise" where
  "promise_all rs =
     (case first_failed rs of
        Some e \<Rightarrow> Failed e
      | None \<Rightarrow> (case all_fulfilled rs of None \<Rightarrow> Unsettled | Some xs \<Rightarrow> Fulfilled xs))"

definition get_posts_feed :: "feed_store \<Rightarrow> string \<Rightarrow> string \<Rightarrow> enriched_post list response" where
  "get_posts_feed st limit_param offset_param =
     (let limit = feed_limit (parseInt limit_param);
          offset = feed_offset (parseInt offset_param)
      in case throw_on_error (posts_page st offset (offset + limit - 1)) of
           Never \<Rightarrow> Hang
         | Thrown e \<Rightarrow> Respond 500 (Fail E_carregar_posts (Some (err_message e)))
         | Value posts \<Rightarrow>
             (case promise_all (map (enrich st) (or_empty posts)) of
                Unsettled \<Rightarrow> Hang
              | Failed e \<Rightarrow> Respond 500 (Fail E_carregar_posts (Some (err_message e)))
              | Fulfilled enriched \<Rightarrow> Respond 200 (Ok enriched)))"

text \<open>
  A store that holds its tables as lists and answers every query. The page query
  sorts by \<open>criado_em\<close> descending and returns the rows at positions \<open>a\<close> to \<open>b\<close>
  inclusive (none when \<open>b < a\<close>).
\<close>

record tables =
  posts :: "post list"
  curtidas_of :: "nat \<Rightarrow> nat"
  comentarios :: "comentario list"

definition newest_first :: "post list \<Rightarrow> post list" where
  "newest_first ps = sort_key (\<lambda>p. - criado_em p) ps"

definition rows_range :: "int \<Rightarrow> int \<Rightarrow> 'a list \<Rightarrow> 'a list" where
  "rows_range a b xs = take (nat (b - a + 1)) (drop (nat a) xs)"

definition comments_of :: "comentario list \<Rightarrow> nat \<Rightarrow> comentario list" where
  "comments_of cs pid =
     take 3 (sort_key (\<lambda>c. - com_criado_em c) (filter (\<lambda>c. com_post_id c = pid) cs))"

definition feed_store_of :: "tables \<Rightarrow> feed_store" where
  "feed_store_of t =
     \<lparr> posts_page = (\<lambda>a b. Resolved (Some (rows_range a b (newest_first (posts t)))) None),
       likes_count = (\<lambda>pid. Resolved (Some (curtidas_of t pid)) None),
       latest_comments = (\<lambda>pid. Resolved (Some (comments_of (comentarios t) pid)) None) \<rparr>"

text \<open>What the handler adds to a post when every lookup is answered from the tables.\<close>

definition enriched_of :: "tables \<Rightarrow> post \<Rightarrow> enriched_post" where
  "enriched_of t p =
     \<lparr> the_post = p,
       curtidas_count = curtidas_of t (post_id p),
       comentarios_count = length (comments_of (comentarios t) (post_id p)),
       comentarios_preview = comments_of (comentarios t) (post_id p) \<rparr>"

subsection \<open>POST /contract-settings\<close>

record cs_payload =
  p_professor_email :: "string option"
  p_aluno_email :: "string option"
  p_professor_name :: "string option"
  p_professor_cref :: "string option"
  p_option1_value :: "int option"
  p_option2_value :: "int option"

record cs_row =
  professor_email :: string
  aluno_email :: string
  professor_name :: "string option"
  professor_cref :: "string option"
  option1_value :: "int option"
  option2_value :: "int option"
  updated_at :: string

text \<open>
  The three calls on table \<^verbatim>\<open>contract_settings\<close>, each followed by \<^verbatim>\<open>.select()\<close>:
  \<^verbatim>\<open>upsert([row], { onConflict })\<close>,
  \<^verbatim>\<open>update(row).eq('professor_email', p).eq('aluno_email', a)\<close> and \<^verbatim>\<open>insert([row])\<close>.
  A call takes the store from one state to the next.
\<close>

record 's cs_ops =
  cs_upsert :: "cs_row \<Rightarrow> string \<Rightarrow> 's \<Rightarrow> cs_row list awaited \<times> 's"
  cs_update :: "cs_row \<Rightarrow> string \<Rightarrow> string \<Rightarrow> 's \<Rightarrow> cs_row list awaited \<times> 's"
  cs_insert :: "cs_row \<Rightarrow> 's \<Rightarrow> cs_row list awaited \<times> 's"

definition upsertPayload :: "string \<Rightarrow> string \<Rightarrow> string \<Rightarrow> cs_payload \<Rightarrow> cs_row" where
  "upsertPayload now_iso pe ae payload =
     \<lparr> professor_email = toLowerCase (trim pe),
       aluno_email = toLowerCase (trim ae),
       professor_name = or_null (p_professor_name payload),
       professor_cref = or_null (p_professor_cref payload),
       option1_value = p_option1_value payload,
       option2_value = p_option2_value payload,
       updated_at = now_iso \<rparr>"

text \<open>The manual upsert of the \<^verbatim>\<open>42P10\<close> branch: UPDATE, then INSERT when no row came back.\<close>

definition manual_upsert :: "'s cs_ops \<Rightarrow> cs_row \<Rightarrow> 's \<Rightarrow> cs_row list response \<times> 's" where
  "manual_upsert ops row s1 =
     (case cs_update ops row (professor_email row) (aluno_email row) s1 of
        (ru, s2) \<Rightarrow>
          (case throw_on_error ru of
             Never \<Rightarrow> (Hang, s2)
           | Thrown e \<Rightarrow> (Respond 500 (Fail E_upsert_manual (Some (err_message e))), s2)
           | Value updated \<Rightarrow>
               (if or_empty updated \<noteq> [] then (Respond 200 (Ok (or_empty updated)), s2)
                else (case cs_insert ops row s2 of
                        (ri, s3) \<Rightarrow>
                          (case throw_on_error ri of
                             Never \<Rightarrow> (Hang, s3)
                           | Thrown e \<Rightarrow>
                               (Respond 500 (Fail E_upsert_manual (Some (err_message e))), s3)
                           | Value inserted \<Rightarrow> (Respond 200 (Ok (or_empty inserted)), s3))))))"

definition post_contract_settings ::
  "'s cs_ops \<Rightarrow> string \<Rightarrow> cs_payload \<Rightarrow> 's \<Rightarrow> cs_row list response \<times> 's" where
  "post_contract_settings ops now_iso payload s =
     (case (or_null (p_professor_email payload), or_null (p_aluno_email payload)) of
        (None, _) \<Rightarrow> (Respond 400 (Fail (E_obrigatorio ''professor_email'') None), s)
      | (Some pe, None) \<Rightarrow> (Respond 400 (Fail (E_obrigatorio ''aluno_email'') None), s)
      | (Some pe, Some ae) \<Rightarrow>
          (let row = upsertPayload now_iso pe ae payload
           in case cs_upsert ops row ''professor_email,aluno_email'' s of
                (r, s1) \<Rightarrow>
                  (case throw_on_error r of
                     Never \<Rightarrow> (Hang, s1)
                   | Value d \<Rightarrow> (Respond 200 (Ok (or_empty d)), s1)
                   | Thrown err \<Rightarrow>
                       (if err_code err = Some ''PGRST205''
                        then (Respond 500 (Fail E_tabela_contract_settings None), s1)
                        else if err_code err = Some ''42P10'' then manual_upsert ops row s1
                        else (Respond 500 (Fail E_salvar_config (Some (err_message err))), s1)))))"

text \<open>
  A store that answers from a script and keeps the list of the calls it received.
\<close>

datatype cs_call =
    Upsert cs_row string
  | Update cs_row string string
  | Insert cs_row

record cs_script =
  upsert_reply :: "cs_row list awaited"
  update_reply :: "cs_row list awaited"
  insert_reply :: "cs_row list awaited"

definition cs_recording :: "cs_script \<Rightarrow> cs_call list cs_ops" where
  "cs_recording sc =
     \<lparr> cs_upsert = (\<lambda>row key tr. (upsert_reply sc, tr @ [Upsert row key])),
       cs_update = (\<lambda>row p a tr. (update_reply sc, tr @ [Update row p a])),
       cs_insert = (\<lambda>row tr. (insert_reply sc, tr @ [Insert row])) \<rparr>"

subsection \<open>POST /posts/:id/curtir\<close>

record curtida =
  c_post_id :: string
  c_usuario_email :: string
  c_criado_em :: string

record curtir_req =
  param_id :: string                       \<comment> \<open>\<^verbatim>\<open>req.params.id\<close>\<close>
  body_usuario_email :: "string option"    \<comment> \<open>\<^verbatim>\<open>req.body.usuario_email\<close>\<close>
  header_user_email :: "string option"     \<comment> \<open>\<^verbatim>\<open>req.headers['x-user-email']\<close>\<close>

text \<open>
  The calls on table \<^verbatim>\<open>curtidas\<close>:
  \<^verbatim>\<open>select('*').eq('post_id', p).eq('usuario_email', u).maybeSingle()\<close>,
  \<^verbatim>\<open>delete().eq('post_id', p).eq('usuario_email', u)\<close> and \<^verbatim>\<open>insert([row])\<close>.
\<close>

record 's curtidas_ops =
  find_curtida :: "string \<Rightarrow> string \<Rightarrow> 's \<Rightarrow> curtida awaited \<times> 's"
  delete_curtida :: "string \<Rightarrow> string \<Rightarrow> 's \<Rightarrow> unit awaited \<times> 's"
  insert_curtida :: "curtida \<Rightarrow> 's \<Rightarrow> unit awaited \<times> 's"

text \<open>\<^verbatim>\<open>req.body.usuario_email || req.headers['x-user-email']\<close>, then \<^verbatim>\<open>!usuarioEmail\<close>.\<close>

definition usuarioEmail :: "curtir_req \<Rightarrow> string option" where
  "usuarioEmail req =
     (if truthy (body_usuario_email req) then body_usuario_email req
      else or_null (header_user_email req))"

text \<open>
  The body of a success is \<^verbatim>\<open>{ success: true, curtido }\<close>; \<open>Ok\<close> carries \<^verbatim>\<open>curtido\<close>.
  The \<^verbatim>\<open>error\<close> of the lookup is not read: only \<^verbatim>\<open>data\<close> decides the branch.
\<close>

definition post_curtir ::
  "'s curtidas_ops \<Rightarrow> string \<Rightarrow> curtir_req \<Rightarrow> 's \<Rightarrow> bool response \<times> 's" where
  "post_curtir ops now_iso req s =
     (case usuarioEmail req of
        None \<Rightarrow> (Respond 400 (Fail E_email_usuario None), s)
      | Some ue \<Rightarrow>
          (case find_curtida ops (param_id req) (toLowerCase ue) s of
             (r, s1) \<Rightarrow>
               (case r of
                  Pending \<Rightarrow> (Hang, s1)
                | Rejected e \<Rightarrow> (Respond 500 (Fail E_curtir (Some (err_message e))), s1)
                | Resolved (Some existente) _ \<Rightarrow>
                    (case delete_curtida ops (param_id req) (toLowerCase ue) s1 of
                       (rd, s2) \<Rightarrow>
                         (case throw_on_error rd of
                            Never \<Rightarrow> (Hang, s2)
                          | Thrown e \<Rightarrow> (Respond 500 (Fail E_curtir (Some (err_message e))), s2)
                          | Value _ \<Rightarrow> (Respond 200 (Ok False), s2)))
                | Resolved None _ \<Rightarrow>
                    (case insert_curtida ops
                            \<lparr> c_post_id = param_id req, c_usuario_email = toLowerCase ue,
                              c_criado_em = now_iso \<rparr> s1 of
                       (ri, s2) \<Rightarrow>
                         (case throw_on_error ri of
                            Never \<Rightarrow> (Hang, s2)
                          | Thrown e \<Rightarrow> (Respond 500 (Fail E_curtir (Some (err_message e))), s2)
                          | Value _ \<Rightarrow> (Respond 200 (Ok True), s2))))))"

text \<open>Consecutive calls with the same request, one per time stamp.\<close>

fun curtir_calls ::
  "'s curtidas_ops \<Rightarrow> curtir_req \<Rightarrow> string list \<Rightarrow> 's \<Rightarrow> bool response list \<times> 's" where
  "curtir_calls ops req [] s = ([], s)"
| "curtir_calls ops req (t # ts) s =
     (case post_curtir ops t req s of
        (r, s1) \<Rightarrow> (case curtir_calls ops req ts s1 of (rs, s2) \<Rightarrow> (r # rs, s2)))"

text \<open>
  The table \<^verbatim>\<open>curtidas\<close> as a list of rows, in a store that answers every call:
  \<^verbatim>\<open>maybeSingle()\<close> gives the row when one row matches, \<^verbatim>\<open>null\<close> when none does,
  and \<^verbatim>\<open>null\<close> with error \<^verbatim>\<open>PGRST116\<close> when several do; a delete removes every
  matching row; an insert adds the row.
\<close>

definition is_like_of :: "string \<Rightarrow> string \<Rightarrow> curtida \<Rightarrow> bool" where
  "is_like_of p u c = (c_post_id c = p \<and> c_usuario_email c = u)"

definition curtidas_table :: "curtida list curtidas_ops" where
  "curtidas_table =
     \<lparr> find_curtida = (\<lambda>p u rows.
         (case filter (is_like_of p u) rows of
            [] \<Rightarrow> Resolved None None
          | [c] \<Rightarrow> Resolved (Some c) None
          | _ \<Rightarrow> Resolved None
                   (Some \<lparr> err_code = Some ''PGRST116'',
                           err_message = ''multiple (or no) rows returned'', err_details = None \<rparr>),
          rows)),
       delete_curtida = (\<lambda>p u rows. (Resolved None None, filter (\<lambda>c. \<not> is_like_of p u c) rows)),
       insert_curtida = (\<lambda>c rows. (Resolved None None, rows @ [c])) \<rparr>"

text \<open>The like state of a post for a user email, as \<^verbatim>\<open>curtidas\<close> holds it.\<close>

definition liked :: "curtida list \<Rightarrow> string \<Rightarrow> string \<Rightarrow> bool" where
  "liked rows p ue = (filter (is_like_of p (toLowerCase ue)) rows \<noteq> [])"

subsection \<open>POST /produtos and GET /produtos\<close>

record produto =
  prod_id :: nat
  titulo :: string
  imagem_url :: string
  link_mercadolivre :: string
  ordem :: int
  ativo :: bool
  prod_criado_em :: string

record novo_produto =
  np_titulo :: string
  np_imagem_url :: string
  np_link_mercadolivre :: string
  np_ordem :: int
  np_ativo :: bool
  np_criado_em :: string

record produto_req =
  b_titulo :: "string option"
  b_imagem_url :: "string option"
  b_link_mercadolivre :: "string option"

text \<open>
  The calls on table \<^verbatim>\<open>produtos_loja\<close>:
  \<^verbatim>\<open>select('ordem').order('ordem', { ascending: false }).limit(1).single()\<close>, whose
  data is the column \<^verbatim>\<open>ordem\<close> of one row (a number or \<^verbatim>\<open>null\<close>);
  \<^verbatim>\<open>insert(row).select().single()\<close>; and
  \<^verbatim>\<open>select('*').eq('ativo', true).order('ordem', { ascending: true })\<close>.
\<close>

record 's produtos_ops =
  ultimo_produto :: "'s \<Rightarrow> int option awaited \<times> 's"
  insert_produto :: "novo_produto \<Rightarrow> 's \<Rightarrow> produto awaited \<times> 's"
  produtos_ativos :: "'s \<Rightarrow> produto list awaited \<times> 's"

text \<open>\<^verbatim>\<open>(ultimoProduto?.ordem || 0) + 1\<close>\<close>

definition novaOrdem :: "int option option \<Rightarrow> int" where
  "novaOrdem ultimo = num_or (case ultimo of None \<Rightarrow> None | Some v \<Rightarrow> v) 0 + 1"

text \<open>
  The body of a success is \<^verbatim>\<open>{ success: true, data }\<close>; \<open>Ok\<close> carries \<^verbatim>\<open>data\<close>.
  The \<^verbatim>\<open>error\<close> of the first query is not read.
\<close>

definition post_produtos ::
  "'s produtos_ops \<Rightarrow> string \<Rightarrow> produto_req \<Rightarrow> 's \<Rightarrow> produto option response \<times> 's" where
  "post_produtos ops now_iso req s =
     (case (or_null (b_titulo req), or_null (b_imagem_url req), or_null (b_link_mercadolivre req)) of
        (Some t, Some img, Some link) \<Rightarrow>
          (case ultimo_produto ops s of
             (r, s1) \<Rightarrow>
               (case r of
                  Pending \<Rightarrow> (Hang, s1)
                | Rejected e \<Rightarrow> (Respond 500 (Fail E_criar_produto (Some (err_message e))), s1)
                | Resolved ultimo _ \<Rightarrow>
                    (case insert_produto ops
                            \<lparr> np_titulo = trim t, np_imagem_url = img, np_link_mercadolivre = link,
                              np_ordem = novaOrdem ultimo, np_ativo = True, np_criado_em = now_iso \<rparr>
                            s1 of
                       (ri, s2) \<Rightarrow>
                         (case throw_on_error ri of
                            Never \<Rightarrow> (Hang, s2)
                          | Thrown e \<Rightarrow>
                              (Respond 500 (Fail E_criar_produto (Some (err_message e))), s2)
                          | Value d \<Rightarrow> (Respond 200 (Ok d), s2)))))
      | _ \<Rightarrow> (Respond 400 (Fail E_titulo_imagem_link None), s))"

definition get_produtos :: "'s produtos_ops \<Rightarrow> 's \<Rightarrow> produto list response \<times> 's" where
  "get_produtos ops s =
     (case produtos_ativos ops s of
        (r, s1) \<Rightarrow>
          (case throw_on_error r of
             Never \<Rightarrow> (Hang, s1)
           | Thrown e \<Rightarrow> (Respond 500 (Fail E_listar_produtos (Some (err_message e))), s1)
           | Value d \<Rightarrow> (Respond 200 (Ok (or_empty d)), s1)))"

text \<open>
  The table \<^verbatim>\<open>produtos_loja\<close> as a list of rows whose \<^verbatim>\<open>ordem\<close> is an integer, in
  a store that answers every call. \<^verbatim>\<open>single()\<close> on an empty result gives \<^verbatim>\<open>null\<close>
  with error \<^verbatim>\<open>PGRST116\<close>. An insert gives the new row an unused id.
\<close>

definition fresh_id :: "produto list \<Rightarrow> nat" where
  "fresh_id rows = Suc (fold max (map prod_id rows) 0)"

definition stored :: "nat \<Rightarrow> novo_produto \<Rightarrow> produto" where
  "stored i np =
     \<lparr> prod_id = i, titulo = np_titulo np, imagem_url = np_imagem_url np,
       link_mercadolivre = np_link_mercadolivre np, ordem = np_ordem np, ativo = np_ativo np,
       prod_criado_em = np_criado_em np \<rparr>"

definition produtos_table :: "produto list produtos_ops" where
  "produtos_table =
     \<lparr> ultimo_produto = (\<lambda>rows.
         (case sort_key (\<lambda>p. - ordem p) rows of
            [] \<Rightarrow> Resolved None
                   (Some \<lparr> err_code = Some ''PGRST116'',
                           err_message = ''multiple (or no) rows returned'', err_details = None \<rparr>)
          | p # _ \<Rightarrow> Resolved (Some (Some (ordem p))) None,
          rows)),
       insert_produto = (\<lambda>np rows.
         (Resolved (Some (stored (fresh_id rows) np)) None, rows @ [stored (fresh_id rows) np])),
       produtos_ativos = (\<lambda>rows. (Resolved (Some (sort_key ordem (filter ativo rows))) None, rows)) \<rparr>"

subsection \<open>The table users: POST /login, GET /users and handleCreateAluno\<close>

record user =
  u_id :: nat
  u_nome :: string
  u_email :: string
  u_senha :: string
  u_tipo :: string
  u_criado_por :: "string option"
  u_contract_end :: "string option"
  u_blocked :: "int option"

text \<open>
  POST /login awaits
  \<^verbatim>\<open>from('users').select('*').eq('email', email).eq('senha', senha)\<close> in a race with a
  timer of 10 seconds. \<open>Pending\<close> stands for a query that has not settled when the timer
  fires; a rejection of the query is caught by the same \<^verbatim>\<open>catch\<close> as the timer's.
\<close>

definition post_login ::
  "(string \<Rightarrow> string \<Rightarrow> user list awaited) \<Rightarrow> string option \<Rightarrow> string option \<Rightarrow> user response" where
  "post_login query email senha =
     (case (or_null email, or_null senha) of
        (Some e, Some pw) \<Rightarrow>
          (case query e pw of
             Pending \<Rightarrow>
               Respond 500 (Fail E_timeout_banco (Some ''Query timeout - Supabase demorando demais''))
           | Rejected err \<Rightarrow> Respond 500 (Fail E_timeout_banco (Some (err_message err)))
           | Resolved _ (Some err) \<Rightarrow> Respond 500 (Fail E_login (Some (err_message err)))
           | Resolved d None \<Rightarrow>
               (case or_empty d of
                  [] \<Rightarrow> Respond 401 (Fail E_credenciais_invalidas None)
                | u # _ \<Rightarrow> Respond 200 (Ok u)))
      | _ \<Rightarrow> Respond 400 (Fail E_email_senha None))"

text \<open>GET /users awaits \<^verbatim>\<open>from('users').select('*')\<close>.\<close>

definition get_users :: "user list awaited \<Rightarrow> user list option response" where
  "get_users r =
     (case throw_on_error r of
        Never \<Rightarrow> Hang
      | Thrown e \<Rightarrow> Respond 500 (Fail (E_message (err_message e)) None)
      | Value d \<Rightarrow> Respond 200 (Ok d))"

record aluno_body =
  ab_nome :: "string option"
  ab_email :: "string option"
  ab_senha :: "string option"
  ab_tipo :: "string option"
  ab_contract_end :: "string option"
  ab_contractEnd :: "string option"
  ab_criado_por :: "string option"
  ab_criadoPor :: "string option"
  ab_criado_by :: "string option"

record novo_user =
  nu_nome :: string
  nu_email :: string
  nu_senha :: string
  nu_tipo :: string
  nu_criado_por :: "string option"
  nu_contract_end :: "string option"

record aluno_perfil =
  ap_email :: string
  ap_nome :: string
  ap_professor_email :: "string option"
  ap_criado_em :: string

text \<open>
  \<^verbatim>\<open>from('users').insert([payload]).select().maybeSingle()\<close> and
  \<^verbatim>\<open>from('alunos').insert(profile)\<close>.
\<close>

record 's alunos_ops =
  insert_user :: "novo_user \<Rightarrow> 's \<Rightarrow> user awaited \<times> 's"
  insert_aluno :: "aluno_perfil \<Rightarrow> 's \<Rightarrow> unit awaited \<times> 's"

text \<open>
  The variable \<^verbatim>\<open>criado_por\<close> after
  \<^verbatim>\<open>body.criado_por || body.criadoPor || body.criado_by || null\<close> and
  \<^verbatim>\<open>if (criado_por) criado_por = criado_por.toString().trim().toLowerCase()\<close>: missing, or
  the normalised value, which is empty for a value of white space only.
\<close>

definition criado_por_of :: "aluno_body \<Rightarrow> string option" where
  "criado_por_of body =
     map_option (\<lambda>c. toLowerCase (trim c))
       (or_null (or_else (ab_criado_por body) (or_else (ab_criadoPor body) (ab_criado_by body))))"

text \<open>
  The row for \<^verbatim>\<open>users\<close>: \<^verbatim>\<open>{ nome, email, senha, tipo, criado_por: criado_por || null }\<close>,
  with \<^verbatim>\<open>contract_end\<close> only when it is truthy.
\<close>

definition aluno_payload :: "string \<Rightarrow> string \<Rightarrow> string \<Rightarrow> aluno_body \<Rightarrow> novo_user" where
  "aluno_payload n e pw body =
     \<lparr> nu_nome = trim n,
       nu_email = toLowerCase (trim e),
       nu_senha = pw,
       nu_tipo = (case or_null (ab_tipo body) of Some t \<Rightarrow> t | None \<Rightarrow> ''aluno''),
       nu_criado_por = or_null (criado_por_of body),
       nu_contract_end = or_null (or_else (ab_contract_end body) (ab_contractEnd body)) \<rparr>"

definition is_conflict :: "store_error \<Rightarrow> bool" where
  "is_conflict err =
     (err_code err = Some ''23505'' \<or>
      (case or_null (err_details err) of
         Some d \<Rightarrow> str_includes (toLowerCase d) ''already exists''
       | None \<Rightarrow> False))"

definition handleCreateAluno ::
  "'s alunos_ops \<Rightarrow> string \<Rightarrow> aluno_body \<Rightarrow> 's \<Rightarrow> user response \<times> 's" where
  "handleCreateAluno ops now body s =
     (case (or_null (ab_nome body), or_null (ab_email body), or_null (ab_senha body)) of
        (Some n, Some e, Some pw) \<Rightarrow>
          (let payload = aluno_payload n e pw body
           in case insert_user ops payload s of
                (r, s1) \<Rightarrow>
                  (case r of
                     Pending \<Rightarrow> (Hang, s1)
                   | Rejected err \<Rightarrow>
                       (Respond 500 (Fail E_interno_criar_aluno (Some (err_message err))), s1)
                   | Resolved _ (Some err) \<Rightarrow>
                       (if is_conflict err
                        then (Respond 409 (Fail E_email_ja_cadastrado (Some (err_message err))), s1)
                        else (Respond 500 (Fail E_inserir_usuario (Some (err_message err))), s1))
                   | Resolved None None \<Rightarrow> (Respond 500 (Fail E_insercao_sem_dados None), s1)
                   | Resolved (Some u) None \<Rightarrow>
                       (if nu_tipo payload = ''aluno''
                        then (case insert_aluno ops
                                     \<lparr> ap_email = nu_email payload, ap_nome = nu_nome payload,
                                       ap_professor_email = criado_por_of body,
                                       ap_criado_em = now \<rparr> s1 of
                                (ra, s2) \<Rightarrow>
                                  (if ra = Pending then (Hang, s2) else (Respond 200 (Ok u), s2)))
                        else (Respond 200 (Ok u), s1))))
      | _ \<Rightarrow> (Respond 400 (Fail E_nome_email_senha None), s))"

text \<open>
  The tables \<^verbatim>\<open>users\<close> and \<^verbatim>\<open>alunos\<close> as lists of rows, in a store that answers
  every call: equality on a text column is exact, the email of a user is unique (a
  second insert fails with code \<^verbatim>\<open>23505\<close>), and a new user gets an unused id.
\<close>

record people =
  users :: "user list"
  alunos :: "aluno_perfil list"

definition users_query :: "user list \<Rightarrow> string \<Rightarrow> string \<Rightarrow> user list awaited" where
  "users_query rows e pw = Resolved (Some (filter (\<lambda>u. u_email u = e \<and> u_senha u = pw) rows)) None"

definition new_user :: "nat \<Rightarrow> novo_user \<Rightarrow> user" where
  "new_user i nu =
     \<lparr> u_id = i, u_nome = nu_nome nu, u_email = nu_email nu, u_senha = nu_senha nu,
       u_tipo = nu_tipo nu, u_criado_por = nu_criado_por nu,
       u_contract_end = nu_contract_end nu, u_blocked = None \<rparr>"

definition people_table :: "people alunos_ops" where
  "people_table =
     \<lparr> insert_user = (\<lambda>nu s.
         (if nu_email nu \<in> set (map u_email (users s))
          then (Resolved None
                  (Some \<lparr> err_code = Some ''23505'',
                          err_message = ''duplicate key value violates unique constraint'',
                          err_details = Some ''Key (email) already exists.'' \<rparr>), s)
          else (Resolved (Some (new_user (Suc (fold max (map u_id (users s)) 0)) nu)) None,
                s\<lparr> users := users s @ [new_user (Suc (fold max (map u_id (users s)) 0)) nu] \<rparr>))),
       insert_aluno = (\<lambda>ap s. (Resolved None None, s\<lparr> alunos := alunos s @ [ap] \<rparr>)) \<rparr>"

subsection \<open>PATCH /alunos/:id/contract\<close>

text \<open>
  The \<^verbatim>\<open>Date\<close> built-in as the handler uses it: the time value of \<^verbatim>\<open>new Date(s)\<close> in
  milliseconds (\<open>None\<close> for an invalid date), \<^verbatim>\<open>toISOString()\<close> of a valid time value,
  and the readings of the clock: \<^verbatim>\<open>new Date()\<close> where the flag is decided,
  \<^verbatim>\<open>Date.now().toString()\<close> and \<^verbatim>\<open>new Date().toISOString()\<close> where messages are stamped.
\<close>

record js_clock =
  date_parse :: "string \<Rightarrow> int option"
  to_iso :: "int \<Rightarrow> string"
  now_ms :: int
  now_text :: string
  now_iso :: string

text \<open>The texts of the system messages; the comment gives the template.\<close>

datatype msg_text =
    M_contrato_expirou
      \<comment> \<open>'Seu contrato expirou. Por favor, contate seu administrador para renovar.'\<close>
  | M_contrato_atualizado string
      \<comment> \<open>\<^verbatim>\<open>`Seu contrato foi atualizado ate ${iso}. Acesse sua conta para mais detalhes.`\<close>\<close>
  | M_aluno_expirou string
      \<comment> \<open>\<^verbatim>\<open>`O contrato do aluno ${user.email} expirou. Por favor, verifique e tome as
          providencias necessarias.`\<close>\<close>
  | M_aluno_renovado string string
      \<comment> \<open>\<^verbatim>\<open>`O contrato do aluno ${user.email} foi renovado ate ${iso}.`\<close>\<close>
  | M_treino_concluido string string "int option" "int option"
      \<comment> \<open>\<^verbatim>\<open>`O aluno ${alunoEmail} concluiu um treino (id ${treinoId}) com ${peso} kg e
          progresso ${percent}%.`\<close>, a dash for a falsy weight or percentage\<close>

record mensagem =
  m_de :: string
  m_para :: string
  m_mensagem :: msg_text
  m_data :: string

record contract_req =
  pc_id :: string                          \<comment> \<open>\<^verbatim>\<open>req.params.id\<close>\<close>
  pc_contract_end :: "string option"       \<comment> \<open>\<^verbatim>\<open>req.body.contract_end\<close>\<close>
  pc_professor_email :: "string option"    \<comment> \<open>\<^verbatim>\<open>req.body.professor_email\<close>\<close>

record contract_resp =
  r_id :: string
  r_contract_end :: string
  r_blocked :: int

text \<open>
  \<^verbatim>\<open>from('users').update({ contract_end: iso, blocked }).eq('id', id)\<close>,
  \<^verbatim>\<open>from('users').select('id,email,tipo,criado_por,contract_end,blocked').eq('id', id).maybeSingle()\<close>
  and \<^verbatim>\<open>from('mensagens').insert([m])\<close>.
\<close>

record 's contract_ops =
  update_contract :: "string \<Rightarrow> string \<Rightarrow> int \<Rightarrow> 's \<Rightarrow> unit awaited \<times> 's"
  fetch_user :: "string \<Rightarrow> 's \<Rightarrow> user awaited \<times> 's"
  insert_mensagem :: "mensagem \<Rightarrow> 's \<Rightarrow> unit awaited \<times> 's"

text \<open>
  \<^verbatim>\<open>try { iso = new Date(contract_end).toISOString() } catch (e) { }\<close>: an invalid date
  makes \<^verbatim>\<open>toISOString\<close> throw and the raw value is kept.
\<close>

definition contract_iso :: "js_clock \<Rightarrow> string \<Rightarrow> string" where
  "contract_iso ck ce = (case date_parse ck ce of Some t \<Rightarrow> to_iso ck t | None \<Rightarrow> ce)"

text \<open>\<^verbatim>\<open>!isNaN(end.getTime()) && end <= new Date()\<close> for \<^verbatim>\<open>end = new Date(iso)\<close>.\<close>

definition contract_blocked :: "js_clock \<Rightarrow> string \<Rightarrow> bool" where
  "contract_blocked ck iso_end = (case date_parse ck iso_end of Some t \<Rightarrow> t \<le> now_ms ck | None \<Rightarrow> False)"

text \<open>
  An awaited insert inside \<^verbatim>\<open>try { ... } catch (e) { console.error(...) }\<close> whose result
  is not read: the handler goes on unless the insert never settles.
\<close>

definition best_effort :: "unit awaited \<times> 's \<Rightarrow> bool \<times> 's" where
  "best_effort rs = (case rs of (r, s') \<Rightarrow> (r \<noteq> Pending, s'))"

definition notify_user ::
  "'s contract_ops \<Rightarrow> js_clock \<Rightarrow> string \<Rightarrow> bool \<Rightarrow> user option \<Rightarrow> 's \<Rightarrow> bool \<times> 's" where
  "notify_user ops ck iso_end blocked usr s =
     (case usr of
        None \<Rightarrow> (True, s)
      | Some u \<Rightarrow>
          (if u_email u = [] then (True, s)
           else best_effort
                  (insert_mensagem ops
                     \<lparr> m_de = ''sistema'', m_para = u_email u,
                       m_mensagem = (if blocked then M_contrato_expirou else M_contrato_atualizado iso_end),
                       m_data = now_text ck \<rparr> s)))"

definition professorEmail :: "string option \<Rightarrow> user option \<Rightarrow> string option" where
  "professorEmail body_professor usr =
     (case usr of
        None \<Rightarrow> or_null body_professor
      | Some u \<Rightarrow>
          (if u_tipo u = ''professor'' then or_null (Some (u_email u))
           else or_null (or_else body_professor (u_criado_por u))))"

definition notify_professor ::
  "'s contract_ops \<Rightarrow> js_clock \<Rightarrow> string \<Rightarrow> bool \<Rightarrow> string option \<Rightarrow> user option \<Rightarrow> 's
     \<Rightarrow> bool \<times> 's" where
  "notify_professor ops ck iso_end blocked body_professor usr s =
     (case (professorEmail body_professor usr, usr) of
        (Some pe, Some u) \<Rightarrow>
          (if pe \<noteq> u_email u
           then best_effort
                  (insert_mensagem ops
                     \<lparr> m_de = ''sistema'', m_para = pe,
                       m_mensagem = (if blocked then M_aluno_expirou (u_email u)
                                     else M_aluno_renovado (u_email u) iso_end),
                       m_data = now_iso ck \<rparr> s)
           else (True, s))
      | _ \<Rightarrow> (True, s))"

definition patch_aluno_contract ::
  "'s contract_ops \<Rightarrow> js_clock \<Rightarrow> contract_req \<Rightarrow> 's \<Rightarrow> contract_resp response \<times> 's" where
  "patch_aluno_contract ops ck req s =
     (case or_null (pc_contract_end req) of
        None \<Rightarrow> (Respond 400 (Fail E_contract_end None), s)
      | Some ce \<Rightarrow>
          (let iso_end = contract_iso ck ce;
               blocked = contract_blocked ck iso_end;
               flag = (if blocked then 1 else 0)
           in case update_contract ops (pc_id req) iso_end flag s of
                (ru, s1) \<Rightarrow>
                  (case throw_on_error ru of
                     Never \<Rightarrow> (Hang, s1)
                   | Thrown e \<Rightarrow>
                       (Respond 500 (Fail E_atualizar_contrato (Some (err_message e))), s1)
                   | Value _ \<Rightarrow>
                       (case fetch_user ops (pc_id req) s1 of
                          (rf, s2) \<Rightarrow>
                            (case throw_on_error rf of
                               Never \<Rightarrow> (Hang, s2)
                             | Thrown e \<Rightarrow>
                                 (Respond 500 (Fail E_atualizar_contrato (Some (err_message e))), s2)
                             | Value usr \<Rightarrow>
                                 (case notify_user ops ck iso_end blocked usr s2 of
                                    (go1, s3) \<Rightarrow>
                                      (if \<not> go1 then (Hang, s3)
                                       else (case notify_professor ops ck iso_end blocked
                                                    (pc_professor_email req) usr s3 of
                                               (go2, s4) \<Rightarrow>
                                                 (if \<not> go2 then (Hang, s4)
                                                  else (Respond 200
                                                          (Ok \<lparr> r_id = pc_id req,
                                                                r_contract_end = iso_end,
                                                                r_blocked = flag \<rparr>),
                                                        s4))))))))))"

text \<open>
  A store that answers from a script and keeps the list of the calls it received.
\<close>

datatype contract_call =
    Update_contract string string int
  | Fetch_user string
  | Insert_mensagem mensagem

record contract_script =
  update_result :: "unit awaited"
  fetch_result :: "user awaited"
  insert_result :: "mensagem \<Rightarrow> unit awaited"

definition contract_recording :: "contract_script \<Rightarrow> contract_call list contract_ops" where
  "contract_recording sc =
     \<lparr> update_contract = (\<lambda>i iso_end b tr. (update_result sc, tr @ [Update_contract i iso_end b])),
       fetch_user = (\<lambda>i tr. (fetch_result sc, tr @ [Fetch_user i])),
       insert_mensagem = (\<lambda>m tr. (insert_result sc m, tr @ [Insert_mensagem m])) \<rparr>"

text \<open>
  GET /alunos/:id: the id is cut at the first colon, trimmed and parsed; the row found
  by \<^verbatim>\<open>from('users').select('*').eq('id', id).maybeSingle()\<close> is the response body.
  The argument is what the store answers for the parsed id.
\<close>

definition get_aluno :: "(int \<Rightarrow> user awaited) \<Rightarrow> string \<Rightarrow> user response" where
  "get_aluno lookup id_param =
     (if id_param = [] then Respond 400 (Fail E_id_obrigatorio None)
      else (case parseInt10 (trim (takeWhile (\<lambda>c. c \<noteq> CHR '':'') id_param)) of
              None \<Rightarrow> Respond 400 (Fail E_id_invalido None)
            | Some i \<Rightarrow>
                (if i = 0 then Respond 400 (Fail E_id_invalido None)
                 else (case throw_on_error (lookup i) of
                         Never \<Rightarrow> Hang
                       | Thrown e \<Rightarrow> Respond 500 (Fail E_buscar_aluno (Some (err_message e)))
                       | Value None \<Rightarrow> Respond 404 (Fail E_aluno_nao_encontrado None)
                       | Value (Some u) \<Rightarrow> Respond 200 (Ok u)))))"

subsection \<open>POST /treinos/:id/concluir\<close>

record dados =
  percent :: "int option"
  outros :: string

record concluir_req =
  cq_treino_id :: string
  cq_aluno_email :: "string option"
  cq_peso_corporal :: "int option"
  cq_loads :: "string option"
  cq_dados :: "dados option"

record progresso =
  pg_aluno_email :: string
  pg_treino_id :: string
  pg_peso_corporal :: "int option"
  pg_loads :: "string option"
  pg_dados :: "dados option"
  pg_criado_em :: string

text \<open>
  \<^verbatim>\<open>from('progresso').insert([payload]).select()\<close>, whose rows are of a type \<open>'r\<close> the
  handler does not look into,
  \<^verbatim>\<open>from('users').select('id,email,criado_por').eq('email', e).maybeSingle()\<close> and
  \<^verbatim>\<open>from('mensagens').insert([m])\<close>.
\<close>

record ('s, 'r) concluir_ops =
  insert_progresso :: "progresso \<Rightarrow> 's \<Rightarrow> 'r list awaited \<times> 's"
  user_by_email :: "string \<Rightarrow> 's \<Rightarrow> user awaited \<times> 's"
  send_mensagem :: "mensagem \<Rightarrow> 's \<Rightarrow> unit awaited \<times> 's"

text \<open>\<^verbatim>\<open>x || '-'\<close> on a number that may be missing.\<close>

definition num_truthy :: "int option \<Rightarrow> int option" where
  "num_truthy x = (case x of None \<Rightarrow> None | Some n \<Rightarrow> if n = 0 then None else Some n)"

text \<open>
  The notification of the professor, inside its own \<^verbatim>\<open>try\<close>/\<^verbatim>\<open>catch\<close>: the lookup's
  \<^verbatim>\<open>error\<close> is not read, and a throw of the lookup or of the insert is only logged.
\<close>

definition notify_treino ::
  "('s, 'r) concluir_ops \<Rightarrow> string \<Rightarrow> progresso \<Rightarrow> 's \<Rightarrow> bool \<times> 's" where
  "notify_treino ops t_msg payload s1 =
     (case user_by_email ops (pg_aluno_email payload) s1 of
        (ru, s2) \<Rightarrow>
          (case ru of
             Pending \<Rightarrow> (False, s2)
           | Rejected _ \<Rightarrow> (True, s2)
           | Resolved alunoUser _ \<Rightarrow>
               (case (case alunoUser of None \<Rightarrow> None | Some u \<Rightarrow> or_null (u_criado_por u)) of
                  None \<Rightarrow> (True, s2)
                | Some pe \<Rightarrow>
                    best_effort
                      (send_mensagem ops
                         \<lparr> m_de = pg_aluno_email payload, m_para = pe,
                           m_mensagem =
                             M_treino_concluido (pg_aluno_email payload) (pg_treino_id payload)
                               (num_truthy (pg_peso_corporal payload))
                               (case pg_dados payload of
                                  None \<Rightarrow> None
                                | Some d \<Rightarrow> num_truthy (percent d)),
                           m_data = t_msg \<rparr> s2))))"

definition post_treino_concluir ::
  "('s, 'r) concluir_ops \<Rightarrow> string \<Rightarrow> string \<Rightarrow> concluir_req \<Rightarrow> 's \<Rightarrow> 'r list response \<times> 's" where
  "post_treino_concluir ops t_criado t_msg req s =
     (if cq_treino_id req = [] then (Respond 400 (Fail E_treino_id None), s)
      else (case or_null (cq_aluno_email req) of
              None \<Rightarrow> (Respond 400 (Fail E_aluno_email None), s)
            | Some ae \<Rightarrow>
                (let payload =
                       \<lparr> pg_aluno_email = toLowerCase (trim ae),
                         pg_treino_id = cq_treino_id req,
                         pg_peso_corporal = cq_peso_corporal req,
                         pg_loads = or_null (cq_loads req),
                         pg_dados = cq_dados req,
                         pg_criado_em = t_criado \<rparr>
                 in case insert_progresso ops payload s of
                      (r, s1) \<Rightarrow>
                        (case throw_on_error r of
                           Never \<Rightarrow> (Hang, s1)
                         | Thrown e \<Rightarrow>
                             (if err_code e = Some ''PGRST205''
                              then (Respond 500 (Fail E_tabela_progresso None), s1)
                              else (Respond 500 (Fail E_marcar_treino (Some (err_message e))), s1))
                         | Value d \<Rightarrow>
                             (case notify_treino ops t_msg payload s1 of
                                (go, s3) \<Rightarrow>
                                  (if go then (Respond 200 (Ok (or_empty d)), s3)
                                   else (Hang, s3)))))))"

text \<open>
  A store that answers from a script and keeps the list of the calls it received.
\<close>

datatype concluir_call =
    Insert_progresso progresso
  | User_by_email string
  | Send_mensagem mensagem

record 'r concluir_script =
  progresso_result :: "'r list awaited"
  user_result :: "user awaited"
  send_result :: "mensagem \<Rightarrow> unit awaited"

definition concluir_recording :: "'r concluir_script \<Rightarrow> (concluir_call list, 'r) concluir_ops" where
  "concluir_recording sc =
     \<lparr> insert_progresso = (\<lambda>p tr. (progresso_result sc, tr @ [Insert_progresso p])),
       user_by_email = (\<lambda>e tr. (user_result sc, tr @ [User_by_email e])),
       send_mensagem = (\<lambda>m tr. (send_result sc m, tr @ [Send_mensagem m])) \<rparr>"

subsection \<open>The stand-in client of supabaseClient.js\<close>

text \<open>
  When the URL or the key is missing, \<^verbatim>\<open>supabase\<close> is \<^verbatim>\<open>supabaseStub\<close>. Three kinds of
  values occur in a call chain on it: the object returned by \<^verbatim>\<open>from()\<close>, the object
  \<^verbatim>\<open>stubChain\<close>, and the promise returned by the async function \<^verbatim>\<open>stubResponse\<close>,
  which resolves to \<^verbatim>\<open>{ data: null, error }\<close> with the error below.
\<close>

definition stub_error :: store_error where
  "stub_error =
     \<lparr> err_code = None,
       err_message = ''Supabase not configured (SUPABASE_URL/SUPABASE_SERVICE_KEY missing or invalid)'',
       err_details = None \<rparr>"

datatype stub_value = From_object | Stub_chain | Stub_promise

text \<open>
  The result of calling method \<open>m\<close> on a value, \<open>None\<close> when the value has no such
  method. On the object of \<^verbatim>\<open>from()\<close>, \<^verbatim>\<open>select\<close> returns \<^verbatim>\<open>stubChain\<close> and \<^verbatim>\<open>eq\<close>
  returns \<^verbatim>\<open>this\<close>; on \<^verbatim>\<open>stubChain\<close>, \<^verbatim>\<open>eq\<close> and \<^verbatim>\<open>order\<close> return \<^verbatim>\<open>this\<close>; every
  other listed method is \<^verbatim>\<open>stubResponse\<close>. The promise has none of the query methods
  (its own \<^verbatim>\<open>then\<close>, \<^verbatim>\<open>catch\<close> and \<^verbatim>\<open>finally\<close> are never called by a handler and are
  left out).
\<close>

fun stub_method :: "stub_value \<Rightarrow> string \<Rightarrow> stub_value option" where
  "stub_method From_object m =
     (if m = ''select'' then Some Stub_chain
      else if m \<in> set [''insert'', ''update'', ''delete'', ''upsert'', ''maybeSingle'', ''single'']
        then Some Stub_promise
      else if m = ''eq'' then Some From_object
      else None)"
| "stub_method Stub_chain m =
     (if m \<in> set [''select'', ''insert'', ''update'', ''delete'', ''upsert'', ''maybeSingle'',
                    ''single'', ''range'', ''then'']
        then Some Stub_promise
      else if m \<in> set [''eq'', ''order''] then Some Stub_chain
      else None)"
| "stub_method Stub_promise m = None"

text \<open>
  \<^verbatim>\<open>await v\<close>. The promise resolves to the stub response. \<^verbatim>\<open>stubChain\<close> is a thenable:
  \<^verbatim>\<open>await\<close> calls its \<^verbatim>\<open>then(resolve, reject)\<close>, and
  \<^verbatim>\<open>then: () => Promise.resolve(stubResponse())\<close> takes no parameters and calls neither
  callback, so the \<^verbatim>\<open>await\<close> never resumes. The object of \<^verbatim>\<open>from()\<close> has no \<^verbatim>\<open>then\<close>:
  \<^verbatim>\<open>await\<close> yields the object itself, whose \<^verbatim>\<open>data\<close> and \<^verbatim>\<open>error\<close> are undefined.
\<close>

fun stub_await :: "stub_value \<Rightarrow> 'a awaited" where
  "stub_await Stub_promise = Resolved None (Some stub_error)"
| "stub_await Stub_chain = Pending"
| "stub_await From_object = Resolved None None"

text \<open>
  A chain of method calls followed by \<^verbatim>\<open>await\<close>. Calling a missing method throws a
  \<^verbatim>\<open>TypeError\<close>; every chain of the handlers is built inside a \<^verbatim>\<open>try\<close>. Its message
  names the callee as the engine prints it, each earlier call with its arguments
  elided: \<^verbatim>\<open>supabase.from(...).upsert(...).select is not a function\<close>. The first
  argument is the text of the expression evaluated so far.
\<close>

fun stub_calls :: "string \<Rightarrow> stub_value \<Rightarrow> string list \<Rightarrow> 'a awaited" where
  "stub_calls expr v [] = stub_await v"
| "stub_calls expr v (m # ms) =
     (case stub_method v m of
        None \<Rightarrow> Rejected \<lparr> err_code = None,
                            err_message = expr @ ''.'' @ m @ '' is not a function'',
                            err_details = None \<rparr>
      | Some v' \<Rightarrow> stub_calls (expr @ ''.'' @ m @ ''(...)'') v' ms)"

text \<open>\<^verbatim>\<open>await supabase.from(table).m1(...).m2(...)\<close> with \<^verbatim>\<open>supabase = supabaseStub\<close>\<close>

definition stub_from :: "string list \<Rightarrow> 'a awaited" where
  "stub_from ms = stub_calls ''supabase.from(...)'' From_object ms"

text \<open>The stores of the handlers above, on the stand-in client.\<close>

definition stub_feed_store :: feed_store where
  "stub_feed_store =
     \<lparr> posts_page = (\<lambda>a b. stub_from [''select'', ''order'', ''range'']),
       likes_count = (\<lambda>pid. stub_from [''select'', ''eq'']),
       latest_comments = (\<lambda>pid. stub_from [''select'', ''eq'', ''order'', ''limit'']) \<rparr>"

definition stub_cs_ops :: "unit cs_ops" where
  "stub_cs_ops =
     \<lparr> cs_upsert = (\<lambda>row key s. (stub_from [''upsert'', ''select''], s)),
       cs_update = (\<lambda>row p a s. (stub_from [''update'', ''eq'', ''eq'', ''select''], s)),
       cs_insert = (\<lambda>row s. (stub_from [''insert'', ''select''], s)) \<rparr>"

definition stub_produtos_ops :: "unit produtos_ops" where
  "stub_produtos_ops =
     \<lparr> ultimo_produto = (\<lambda>s. (stub_from [''select'', ''order'', ''limit'', ''single''], s)),
       insert_produto = (\<lambda>np s. (stub_from [''insert'', ''select'', ''single''], s)),
       produtos_ativos = (\<lambda>s. (stub_from [''select'', ''eq'', ''order''], s)) \<rparr>"

definition stub_contract_ops :: "unit contract_ops" where
  "stub_contract_ops =
     \<lparr> update_contract = (\<lambda>i e b s. (stub_from [''update'', ''eq''], s)),
       fetch_user = (\<lambda>i s. (stub_from [''select'', ''eq'', ''maybeSingle''], s)),
       insert_mensagem = (\<lambda>m s. (stub_from [''insert''], s)) \<rparr>"

definition stub_login_query :: "string \<Rightarrow> string \<Rightarrow> user list awaited" where
  "stub_login_query e pw = stub_from [''select'', ''eq'', ''eq'']"

subsection \<open>Example inputs\<close>

definition example_clock :: js_clock where
  "example_clock =
     \<lparr> date_parse = (\<lambda>s. if s = ''2020-01-01'' \<or> s = ''2020-01-01T00:00:00.000Z''
                            then Some 1577836800000
                          else if s = ''2099-01-01'' \<or> s = ''2099-01-01T00:00:00.000Z''
                            then Some 4070908800000
                          else None),
       to_iso = (\<lambda>t. if t = 1577836800000 then ''2020-01-01T00:00:00.000Z''
                      else if t = 4070908800000 then ''2099-01-01T00:00:00.000Z''
                      else ''other''),
       now_ms = 1700000000000,
       now_text = ''1700000000000'',
       now_iso = ''2023-11-14T22:13:20.000Z'' \<rparr>"

definition example_user :: user where
  "example_user =
     \<lparr> u_id = 5, u_nome = ''Ana'', u_email = ''ana@x.com'', u_senha = ''p1'', u_tipo = ''aluno'',
       u_criado_por = Some ''prof@x.com'', u_contract_end = None, u_blocked = None \<rparr>"

definition example_failure :: store_error where
  "example_failure =
     \<lparr> err_code = Some ''42501'', err_message = ''permission denied'',
       err_details = None \<rparr>"

text \<open>A script whose writes succeed and whose message inserts all fail, and one that knows no user.\<close>

definition script_insert_fails :: contract_script where
  "script_insert_fails =
     \<lparr> update_result = Resolved None None,
       fetch_result = Resolved (Some example_user) None,
       insert_result = (\<lambda>m. Resolved None (Some example_failure)) \<rparr>"

definition script_insert_works :: contract_script where
  "script_insert_works =
     \<lparr> update_result = Resolved None None,
       fetch_result = Resolved (Some example_user) None,
       insert_result = (\<lambda>m. Resolved None None) \<rparr>"

definition script_no_user :: contract_script where
  "script_no_user =
     \<lparr> update_result = Resolved None None,
       fetch_result = Resolved None None,
       insert_result = (\<lambda>m. Resolved None None) \<rparr>"

text \<open>A script whose update succeeds and whose fetch of the user fails.\<close>

definition script_fetch_fails :: contract_script where
  "script_fetch_fails =
     \<lparr> update_result = Resolved None None,
       fetch_result = Resolved None (Some example_failure),
       insert_result = (\<lambda>m. Resolved None None) \<rparr>"

text \<open>
  A script for the workout handler whose insert of the progress row succeeds and whose
  lookup of the student fails.
\<close>

definition concluir_lookup_fails :: "nat concluir_script" where
  "concluir_lookup_fails =
     \<lparr> progresso_result = Resolved (Some [1]) None,
       user_result = Resolved None (Some example_failure),
       send_result = (\<lambda>m. Resolved None None) \<rparr>"

definition concluir_send_throws :: "nat concluir_script" where
  "concluir_send_throws =
     \<lparr> progresso_result = Resolved (Some [1]) None,
       user_result = Resolved (Some example_user) None,
       send_result = (\<lambda>m. Rejected example_failure) \<rparr>"

definition concluir_send_works :: "nat concluir_script" where
  "concluir_send_works =
     \<lparr> progresso_result = Resolved (Some [1]) None,
       user_result = Resolved (Some example_user) None,
       send_result = (\<lambda>m. Resolved None None) \<rparr>"

section \<open>Properties\<close>

subsection \<open>The contract and workout handlers on a scripted store\<close>

lemma contract_recording_simps:
  "update_contract (contract_recording sc) i e b tr = (update_result sc, tr @ [Update_contract i e b])"
  "fetch_user (contract_recording sc) i tr = (fetch_result sc, tr @ [Fetch_user i])"
  "insert_mensagem (contract_recording sc) m tr = (insert_result sc m, tr @ [Insert_mensagem m])"
  by (simp_all add: contract_recording_def)

lemma concluir_recording_simps:
  "insert_progresso (concluir_recording cs) p tr = (progresso_result cs, tr @ [Insert_progresso p])"
  "user_by_email (concluir_recording cs) e tr = (user_result cs, tr @ [User_by_email e])"
  "send_mensagem (concluir_recording cs) m tr = (send_result cs m, tr @ [Send_mensagem m])"
  by (simp_all add: concluir_recording_def)

lemma notify_user_goes_on:
  "\<forall>m. insert_result sc m \<noteq> Pending \<Longrightarrow>
     notify_user (contract_recording sc) ck e b usr tr \<noteq> (False, tr')"
  by (auto simp: notify_user_def best_effort_def contract_recording_simps split: option.splits)

lemma notify_professor_goes_on:
  "\<forall>m. insert_result sc m \<noteq> Pending \<Longrightarrow>
     notify_professor (contract_recording sc) ck e b bp usr tr \<noteq> (False, tr')"
  by (auto simp: notify_professor_def best_effort_def contract_recording_simps split: option.splits)

lemma patch_response_when_inserts_settle:
  assumes "\<forall>m. insert_result sc m \<noteq> Pending"
  shows "fst (patch_aluno_contract (contract_recording sc) ck req tr) =
     (case or_null (pc_contract_end req) of
        None \<Rightarrow> Respond 400 (Fail E_contract_end None)
      | Some ce \<Rightarrow>
          (case throw_on_error (update_result sc) of
             Never \<Rightarrow> Hang
           | Thrown e \<Rightarrow> Respond 500 (Fail E_atualizar_contrato (Some (err_message e)))
           | Value _ \<Rightarrow>
               (case throw_on_error (fetch_result sc) of
                  Never \<Rightarrow> Hang
                | Thrown e \<Rightarrow> Respond 500 (Fail E_atualizar_contrato (Some (err_message e)))
                | Value _ \<Rightarrow>
                    Respond 200
                      (Ok \<lparr> r_id = pc_id req, r_contract_end = contract_iso ck ce,
                            r_blocked = (if contract_blocked ck (contract_iso ck ce) then 1 else 0) \<rparr>))))"
proof (cases "or_null (pc_contract_end req)")
  case None
  then show ?thesis by (simp add: patch_aluno_contract_def)
next
  case (Some ce)
  show ?thesis
  proof (cases "throw_on_error (update_result sc)")
    case (Value d)
    show ?thesis
    proof (cases "throw_on_error (fetch_result sc)")
      case (Value usr)
      note u = \<open>throw_on_error (update_result sc) = Value d\<close>
      note n1 = notify_user_goes_on [OF assms]
      note n2 = notify_professor_goes_on [OF assms]
      show ?thesis
        by (simp add: patch_aluno_contract_def Some u Value contract_recording_simps Let_def
              n1 n2 split: prod.splits)
    qed (simp_all add: patch_aluno_contract_def Some Value contract_recording_simps Let_def)
  qed (simp_all add: patch_aluno_contract_def Some contract_recording_simps Let_def)
qed

lemma notify_treino_goes_on:
  "user_result cs \<noteq> Pending \<Longrightarrow> \<forall>m. send_result cs m \<noteq> Pending \<Longrightarrow>
     notify_treino (concluir_recording cs) t payload tr \<noteq> (False, tr')"
  by (auto simp: notify_treino_def best_effort_def concluir_recording_simps
        split: awaited.splits option.splits)

lemma concluir_response_when_notification_settles:
  assumes "user_result cs \<noteq> Pending" and "\<forall>m. send_result cs m \<noteq> Pending"
  shows "fst (post_treino_concluir (concluir_recording cs) t1 t2 rq tr) =
     (if cq_treino_id rq = [] then Respond 400 (Fail E_treino_id None)
      else (case or_null (cq_aluno_email rq) of
              None \<Rightarrow> Respond 400 (Fail E_aluno_email None)
            | Some ae \<Rightarrow>
                (case throw_on_error (progresso_result cs) of
                   Never \<Rightarrow> Hang
                 | Thrown e \<Rightarrow>
                     (if err_code e = Some ''PGRST205''
                      then Respond 500 (Fail E_tabela_progresso None)
                      else Respond 500 (Fail E_marcar_treino (Some (err_message e))))
                 | Value d \<Rightarrow> Respond 200 (Ok (or_empty d)))))"
proof -
  note go = notify_treino_goes_on [OF assms]
  show ?thesis
    by (simp add: post_treino_concluir_def concluir_recording_simps Let_def go
          split: option.splits checked.splits prod.splits)
qed


lemma cs_recording_simps:
  "cs_upsert (cs_recording sc) row key tr = (upsert_reply sc, tr @ [Upsert row key])"
  "cs_update (cs_recording sc) row p a tr = (update_reply sc, tr @ [Update row p a])"
  "cs_insert (cs_recording sc) row tr = (insert_reply sc, tr @ [Insert row])"
  by (simp_all add: cs_recording_def)

lemma or_null_truthy: "s \<noteq> [] \<Longrightarrow> or_null (Some s) = Some s"
  by (simp add: or_null_def truthy_def)

text \<open>
  Claim C1. A POST /contract-settings request that carries both emails first attempts
  the native upsert keyed on \<^verbatim>\<open>professor_email,aluno_email\<close>. When the store answers
  without error the rows are returned. On error code \<^verbatim>\<open>PGRST205\<close> the response is the
  server error that names the schema script to run. On error code \<^verbatim>\<open>42P10\<close> an UPDATE
  filtered by the two normalised emails follows: its rows are returned when there is at
  least one, otherwise an INSERT follows and its rows are returned; an error of either
  is a server error. Any other error of the upsert is the generic server error. The
  calls listed are exactly the calls made.
\<close>

theorem contract_settings_state_machine:
  assumes pe: "p_professor_email payload = Some pe" "pe \<noteq> []"
      and ae: "p_aluno_email payload = Some ae" "ae \<noteq> []"
  shows "let row = upsertPayload now pe ae payload;
             up = Upsert row ''professor_email,aluno_email'';
             upd = Update row (toLowerCase (trim pe)) (toLowerCase (trim ae));
             run = post_contract_settings (cs_recording sc) now payload []
         in (\<exists>rest. snd run = up # rest)
          \<and> (\<forall>d. throw_on_error (upsert_reply sc) = Value d \<longrightarrow>
                 run = (Respond 200 (Ok (or_empty d)), [up]))
          \<and> (\<forall>e. throw_on_error (upsert_reply sc) = Thrown e \<longrightarrow>
                 (err_code e = Some ''PGRST205'' \<longrightarrow>
                    run = (Respond 500 (Fail E_tabela_contract_settings None), [up]))
               \<and> (err_code e \<noteq> Some ''PGRST205'' \<and> err_code e \<noteq> Some ''42P10'' \<longrightarrow>
                    run = (Respond 500 (Fail E_salvar_config (Some (err_message e))), [up]))
               \<and> (err_code e = Some ''42P10'' \<longrightarrow>
                    (\<forall>u us. throw_on_error (update_reply sc) = Value (Some (u # us)) \<longrightarrow>
                       run = (Respond 200 (Ok (u # us)), [up, upd]))
                  \<and> (\<forall>e'. throw_on_error (update_reply sc) = Thrown e' \<longrightarrow>
                       run = (Respond 500 (Fail E_upsert_manual (Some (err_message e'))), [up, upd]))
                  \<and> (\<forall>d. throw_on_error (update_reply sc) = Value d \<and> or_empty d = [] \<longrightarrow>
                       (\<forall>i. throw_on_error (insert_reply sc) = Value i \<longrightarrow>
                          run = (Respond 200 (Ok (or_empty i)), [up, upd, Insert row]))
                     \<and> (\<forall>e'. throw_on_error (insert_reply sc) = Thrown e' \<longrightarrow>
                          run = (Respond 500 (Fail E_upsert_manual (Some (err_message e'))),
                                 [up, upd, Insert row])))))"
proof -
  define row where "row = upsertPayload now pe ae payload"
  have keys: "professor_email row = toLowerCase (trim pe)" "aluno_email row = toLowerCase (trim ae)"
    by (simp_all add: row_def upsertPayload_def)
  have run: "post_contract_settings (cs_recording sc) now payload [] =
       (case throw_on_error (upsert_reply sc) of
          Never \<Rightarrow> (Hang, [Upsert row ''professor_email,aluno_email''])
        | Value d \<Rightarrow> (Respond 200 (Ok (or_empty d)), [Upsert row ''professor_email,aluno_email''])
        | Thrown err \<Rightarrow>
            (if err_code err = Some ''PGRST205''
             then (Respond 500 (Fail E_tabela_contract_settings None), [Upsert row ''professor_email,aluno_email''])
             else if err_code err = Some ''42P10''
               then manual_upsert (cs_recording sc) row [Upsert row ''professor_email,aluno_email'']
             else (Respond 500 (Fail E_salvar_config (Some (err_message err))), [Upsert row ''professor_email,aluno_email''])))"
    using pe ae unfolding row_def
    by (simp add: post_contract_settings_def or_null_truthy cs_recording_simps Let_def)
  have man: "manual_upsert (cs_recording sc) row [Upsert row ''professor_email,aluno_email''] =
       (case throw_on_error (update_reply sc) of
          Never \<Rightarrow> (Hang, [Upsert row ''professor_email,aluno_email'', Update row (toLowerCase (trim pe)) (toLowerCase (trim ae))])
        | Thrown e \<Rightarrow> (Respond 500 (Fail E_upsert_manual (Some (err_message e))),
             [Upsert row ''professor_email,aluno_email'', Update row (toLowerCase (trim pe)) (toLowerCase (trim ae))])
        | Value updated \<Rightarrow>
            (if or_empty updated \<noteq> [] then (Respond 200 (Ok (or_empty updated)),
                [Upsert row ''professor_email,aluno_email'', Update row (toLowerCase (trim pe)) (toLowerCase (trim ae))])
             else (case throw_on_error (insert_reply sc) of
                     Never \<Rightarrow> (Hang, [Upsert row ''professor_email,aluno_email'', Update row (toLowerCase (trim pe)) (toLowerCase (trim ae)), Insert row])
                   | Thrown e \<Rightarrow> (Respond 500 (Fail E_upsert_manual (Some (err_message e))),
                        [Upsert row ''professor_email,aluno_email'', Update row (toLowerCase (trim pe)) (toLowerCase (trim ae)), Insert row])
                   | Value inserted \<Rightarrow> (Respond 200 (Ok (or_empty inserted)),
                        [Upsert row ''professor_email,aluno_email'', Update row (toLowerCase (trim pe)) (toLowerCase (trim ae)), Insert row]))))"
    by (simp add: manual_upsert_def cs_recording_simps keys split: checked.splits)
  show ?thesis
    unfolding Let_def row_def [symmetric] run man
    by (auto simp: or_empty_def split: checked.splits)
qed

lemma normalise_example: "toLowerCase (trim '' Prof@X.com '') = ''prof@x.com''"
  by (simp add: toLowerCase_def trim_def lower_char_def is_ws_def)

text \<open>
  The theorem at a request whose upsert fails with \<^verbatim>\<open>42P10\<close>, whose UPDATE matches no
  row and whose INSERT returns the new row.
\<close>

theorem contract_settings_state_machine_witness:
  "post_contract_settings
     (cs_recording
        \<lparr> upsert_reply = Resolved None (Some \<lparr> err_code = Some ''42P10'', err_message = ''no unique constraint'', err_details = None \<rparr>),
          update_reply = Resolved (Some []) None,
          insert_reply = Resolved (Some [\<lparr> professor_email = ''prof@x.com'', aluno_email = ''ana@x.com'',
              professor_name = None, professor_cref = Some ''123'', option1_value = Some 100,
              option2_value = None, updated_at = ''t0'' \<rparr>]) None \<rparr>)
     ''t0''
     \<lparr> p_professor_email = Some '' Prof@X.com '', p_aluno_email = Some ''ANA@X.com'',
       p_professor_name = Some [], p_professor_cref = Some ''123'',
       p_option1_value = Some 100, p_option2_value = None \<rparr>
     []
   = (let row = \<lparr> professor_email = ''prof@x.com'', aluno_email = ''ana@x.com'',
              professor_name = None, professor_cref = Some ''123'', option1_value = Some 100,
              option2_value = None, updated_at = ''t0'' \<rparr>
      in (Respond 200 (Ok [row]),
          [Upsert row ''professor_email,aluno_email'', Update row ''prof@x.com'' ''ana@x.com'', Insert row]))"
  using contract_settings_state_machine
    [of "\<lparr> p_professor_email = Some '' Prof@X.com '', p_aluno_email = Some ''ANA@X.com'',
           p_professor_name = Some [], p_professor_cref = Some ''123'',
           p_option1_value = Some 100, p_option2_value = None \<rparr>"
        "'' Prof@X.com ''" "''ANA@X.com''" "''t0''"
        "\<lparr> upsert_reply = Resolved None (Some \<lparr> err_code = Some ''42P10'', err_message = ''no unique constraint'', err_details = None \<rparr>),
          update_reply = Resolved (Some []) None,
          insert_reply = Resolved (Some [\<lparr> professor_email = ''prof@x.com'', aluno_email = ''ana@x.com'',
              professor_name = None, professor_cref = Some ''123'', option1_value = Some 100,
              option2_value = None, updated_at = ''t0'' \<rparr>]) None \<rparr>"]
  by (simp add: Let_def upsertPayload_def or_null_def truthy_def or_empty_def
        toLowerCase_def trim_def lower_char_def is_ws_def)

lemma usuarioEmail_body: "body_usuario_email req = Some ue \<Longrightarrow> ue \<noteq> [] \<Longrightarrow> usuarioEmail req = Some ue"
  by (simp add: usuarioEmail_def truthy_def)

lemma curtir_when_absent:
  assumes "usuarioEmail req = Some ue"
      and "filter (is_like_of (param_id req) (toLowerCase ue)) rows = []"
  shows "post_curtir curtidas_table t req rows =
           (Respond 200 (Ok True),
            rows @ [\<lparr> c_post_id = param_id req, c_usuario_email = toLowerCase ue, c_criado_em = t \<rparr>])"
  using assms by (simp add: post_curtir_def curtidas_table_def)

lemma curtir_when_single:
  assumes "usuarioEmail req = Some ue"
      and "filter (is_like_of (param_id req) (toLowerCase ue)) rows = [c]"
  shows "post_curtir curtidas_table t req rows =
           (Respond 200 (Ok False),
            filter (\<lambda>c. \<not> is_like_of (param_id req) (toLowerCase ue) c) rows)"
  using assms by (simp add: post_curtir_def curtidas_table_def)

lemma curtir_when_several:
  assumes "usuarioEmail req = Some ue"
      and "filter (is_like_of (param_id req) (toLowerCase ue)) rows = c # d # cs"
  shows "post_curtir curtidas_table t req rows =
           (Respond 200 (Ok True),
            rows @ [\<lparr> c_post_id = param_id req, c_usuario_email = toLowerCase ue, c_criado_em = t \<rparr>])"
  using assms by (simp add: post_curtir_def curtidas_table_def)

lemma filter_after_delete: "filter P (filter (\<lambda>c. \<not> P c) rows) = []"
  by (induction rows) auto

lemma is_like_of_new:
  "is_like_of p u \<lparr> c_post_id = p, c_usuario_email = u, c_criado_em = t \<rparr>"
  by (simp add: is_like_of_def)

lemma filter_after_insert:
  "filter (is_like_of p u) (rows @ [\<lparr> c_post_id = p, c_usuario_email = u, c_criado_em = t \<rparr>]) =
     filter (is_like_of p u) rows @ [\<lparr> c_post_id = p, c_usuario_email = u, c_criado_em = t \<rparr>]"
  by (simp add: is_like_of_def)

lemma curtir_calls_Cons:
  "curtir_calls ops req (t # ts) s =
     (fst (post_curtir ops t req s) # fst (curtir_calls ops req ts (snd (post_curtir ops t req s))),
      snd (curtir_calls ops req ts (snd (post_curtir ops t req s))))"
  by (simp split: prod.splits)

lemma upt_responses:
  "map f [0..<Suc n] = f 0 # map (\<lambda>i. f (Suc i)) [0..<n]"
  by (simp add: map_upt_Suc del: upt_Suc)

lemma curtir_calls_parity:
  assumes ue: "usuarioEmail req = Some ue"
  shows "(filter (is_like_of (param_id req) (toLowerCase ue)) rows = [] \<longrightarrow>
            (liked (snd (curtir_calls curtidas_table req ts rows)) (param_id req) ue \<longleftrightarrow> odd (length ts)) \<and>
            fst (curtir_calls curtidas_table req ts rows) =
              map (\<lambda>i. Respond 200 (Ok (even i))) [0..<length ts])
       \<and> ((\<exists>c. filter (is_like_of (param_id req) (toLowerCase ue)) rows = [c]) \<longrightarrow>
            (liked (snd (curtir_calls curtidas_table req ts rows)) (param_id req) ue \<longleftrightarrow> even (length ts)) \<and>
            fst (curtir_calls curtidas_table req ts rows) =
              map (\<lambda>i. Respond 200 (Ok (odd i))) [0..<length ts])"
proof (induction ts arbitrary: rows)
  case Nil
  show ?case by (auto simp: liked_def)
next
  case (Cons t ts)
  let ?p = "param_id req" and ?u = "toLowerCase ue"
  let ?new = "\<lparr> c_post_id = ?p, c_usuario_email = ?u, c_criado_em = t \<rparr>"
  show ?case
  proof (intro conjI impI)
    assume a: "filter (is_like_of ?p ?u) rows = []"
    have step: "post_curtir curtidas_table t req rows = (Respond 200 (Ok True), rows @ [?new])"
      by (rule curtir_when_absent [OF ue a])
    have one: "\<exists>c. filter (is_like_of ?p ?u) (rows @ [?new]) = [c]"
      by (simp add: is_like_of_new a)
    from Cons.IH [of "rows @ [?new]"] one
    have ih: "(liked (snd (curtir_calls curtidas_table req ts (rows @ [?new]))) ?p ue \<longleftrightarrow> even (length ts))"
         "fst (curtir_calls curtidas_table req ts (rows @ [?new])) =
              map (\<lambda>i. Respond 200 (Ok (odd i))) [0..<length ts]"
      by blast+
    show "liked (snd (curtir_calls curtidas_table req (t # ts) rows)) ?p ue \<longleftrightarrow> odd (length (t # ts))"
      using ih(1) by (simp add: curtir_calls_Cons step del: curtir_calls.simps)
    show "fst (curtir_calls curtidas_table req (t # ts) rows) =
              map (\<lambda>i. Respond 200 (Ok (even i))) [0..<length (t # ts)]"
      using ih(2) by (simp add: curtir_calls_Cons step upt_responses del: upt_Suc curtir_calls.simps)
  next
    assume "\<exists>c. filter (is_like_of ?p ?u) rows = [c]"
    then obtain c where a: "filter (is_like_of ?p ?u) rows = [c]" ..
    let ?rows' = "filter (\<lambda>c. \<not> is_like_of ?p ?u c) rows"
    have step: "post_curtir curtidas_table t req rows = (Respond 200 (Ok False), ?rows')"
      by (rule curtir_when_single [OF ue a])
    have none: "filter (is_like_of ?p ?u) ?rows' = []"
      by (rule filter_after_delete)
    from Cons.IH [of ?rows'] none
    have ih: "(liked (snd (curtir_calls curtidas_table req ts ?rows')) ?p ue \<longleftrightarrow> odd (length ts))"
         "fst (curtir_calls curtidas_table req ts ?rows') =
              map (\<lambda>i. Respond 200 (Ok (even i))) [0..<length ts]"
      by blast+
    show "liked (snd (curtir_calls curtidas_table req (t # ts) rows)) ?p ue \<longleftrightarrow> even (length (t # ts))"
      using ih(1) by (simp add: curtir_calls_Cons step del: curtir_calls.simps)
    show "fst (curtir_calls curtidas_table req (t # ts) rows) =
              map (\<lambda>i. Respond 200 (Ok (odd i))) [0..<length (t # ts)]"
      using ih(2) by (simp add: curtir_calls_Cons step upt_responses del: upt_Suc curtir_calls.simps)
  qed
qed

lemma two_calls_restore:
  assumes ue: "usuarioEmail req = Some ue"
  shows "liked (snd (curtir_calls curtidas_table req [t1, t2] rows)) (param_id req) ue
           = liked rows (param_id req) ue"
proof -
  let ?p = "param_id req" and ?u = "toLowerCase ue"
  consider (none) "filter (is_like_of ?p ?u) rows = []"
    | (one) c where "filter (is_like_of ?p ?u) rows = [c]"
    | (more) c d cs where "filter (is_like_of ?p ?u) rows = c # d # cs"
    by (cases "filter (is_like_of ?p ?u) rows" rule: list.exhaust)
       (auto, metis list.exhaust)
  then show ?thesis
  proof cases
    case none
    with curtir_calls_parity [OF ue, of rows "[t1, t2]"] show ?thesis
      by (simp add: liked_def)
  next
    case one
    with curtir_calls_parity [OF ue, of rows "[t1, t2]"] show ?thesis
      by (simp add: liked_def)
  next
    case more
    let ?n1 = "\<lparr> c_post_id = ?p, c_usuario_email = ?u, c_criado_em = t1 \<rparr>"
    let ?n2 = "\<lparr> c_post_id = ?p, c_usuario_email = ?u, c_criado_em = t2 \<rparr>"
    have s1: "post_curtir curtidas_table t1 req rows = (Respond 200 (Ok True), rows @ [?n1])"
      by (rule curtir_when_several [OF ue more])
    have m2: "filter (is_like_of ?p ?u) (rows @ [?n1]) = c # d # (cs @ [?n1])"
      by (simp add: is_like_of_new more)
    have s2: "post_curtir curtidas_table t2 req (rows @ [?n1]) = (Respond 200 (Ok True), (rows @ [?n1]) @ [?n2])"
      by (rule curtir_when_several [OF ue m2])
    show ?thesis
      using more by (simp add: curtir_calls_Cons s1 s2 liked_def is_like_of_new del: curtir_calls.simps(2))
  qed
qed

text \<open>
  Claim C2. With a truthy \<^verbatim>\<open>usuario_email\<close> in the body and a store that answers every
  call, consecutive POST /posts/:id/curtir calls with the same request, starting from a
  table without a like of that user on that post, leave the like present exactly when
  their number is odd; the responses alternate \<^verbatim>\<open>curtido: true\<close>, \<^verbatim>\<open>curtido: false\<close>,
  beginning with \<^verbatim>\<open>true\<close>. From any table, two consecutive calls leave the like state
  as it was.
\<close>

theorem like_toggle_parity:
  assumes "body_usuario_email req = Some ue" and "ue \<noteq> []"
  shows "(\<not> liked rows (param_id req) ue \<longrightarrow>
            (liked (snd (curtir_calls curtidas_table req ts rows)) (param_id req) ue \<longleftrightarrow> odd (length ts))
          \<and> fst (curtir_calls curtidas_table req ts rows) =
              map (\<lambda>i. Respond 200 (Ok (even i))) [0..<length ts]
          \<and> fst (curtir_calls curtidas_table req [t1, t2] rows) =
              [Respond 200 (Ok True), Respond 200 (Ok False)])
       \<and> liked (snd (curtir_calls curtidas_table req [t1, t2] rows)) (param_id req) ue
           = liked rows (param_id req) ue"
proof -
  have ue: "usuarioEmail req = Some ue"
    using assms by (rule usuarioEmail_body)
  have two: "map (\<lambda>i. Respond 200 (Ok (even i))) [0..<length [t1, t2]]
               = [Respond 200 (Ok True), Respond 200 (Ok False) :: bool response]"
    by (simp add: upt_rec)
  show ?thesis
    using curtir_calls_parity [OF ue, of rows ts] curtir_calls_parity [OF ue, of rows "[t1, t2]"]
      two_calls_restore [OF ue, of t1 t2 rows] two
    by (simp add: liked_def)
qed

text \<open>The theorem at three calls on an empty table.\<close>

theorem like_toggle_parity_witness:
  "body_usuario_email \<lparr> param_id = ''7'', body_usuario_email = Some ''Ana@X.com'',
                           header_user_email = None \<rparr> = Some ''Ana@X.com''
   \<and> ''Ana@X.com'' \<noteq> []
   \<and> \<not> liked [] ''7'' ''Ana@X.com''
   \<and> liked (snd (curtir_calls curtidas_table
                    \<lparr> param_id = ''7'', body_usuario_email = Some ''Ana@X.com'',
                      header_user_email = None \<rparr> [''t1'', ''t2'', ''t3''] [])) ''7'' ''Ana@X.com''
   \<and> fst (curtir_calls curtidas_table
              \<lparr> param_id = ''7'', body_usuario_email = Some ''Ana@X.com'',
                header_user_email = None \<rparr> [''t1'', ''t2'', ''t3''] [])
       = [Respond 200 (Ok True), Respond 200 (Ok False), Respond 200 (Ok True)]"
  using like_toggle_parity
    [of "\<lparr> param_id = ''7'', body_usuario_email = Some ''Ana@X.com'', header_user_email = None \<rparr>"
        "''Ana@X.com''" "[]" "[''t1'', ''t2'', ''t3'']" "''t1''" "''t2''"]
  by (simp add: liked_def upt_rec)

lemma notify_user_trace:
  "\<exists>ms. snd (notify_user (contract_recording sc) ck e b usr tr) = tr @ ms"
  by (simp add: notify_user_def best_effort_def contract_recording_simps split: option.splits)

lemma notify_professor_trace:
  "\<exists>ms. snd (notify_professor (contract_recording sc) ck e b bp usr tr) = tr @ ms"
  by (simp add: notify_professor_def best_effort_def contract_recording_simps split: option.splits)

lemma patch_first_call:
  assumes "or_null (pc_contract_end req) = Some ce"
  shows "\<exists>rest. snd (patch_aluno_contract (contract_recording sc) ck req []) =
           Update_contract (pc_id req) (contract_iso ck ce)
             (if contract_blocked ck (contract_iso ck ce) then 1 else 0) # rest"
proof -
  let ?u = "Update_contract (pc_id req) (contract_iso ck ce)
             (if contract_blocked ck (contract_iso ck ce) then 1 else 0)"
  let ?f = "Fetch_user (pc_id req)"
  show ?thesis
  proof (cases "throw_on_error (update_result sc)")
    case (Value d)
    show ?thesis
    proof (cases "throw_on_error (fetch_result sc)")
      case (Value usr) 
      note u = \<open>throw_on_error (update_result sc) = Value d\<close>
      obtain ms where ms: "snd (notify_user (contract_recording sc) ck (contract_iso ck ce)
                (contract_blocked ck (contract_iso ck ce)) usr [?u, ?f]) = [?u, ?f] @ ms"
        using notify_user_trace by blast
      obtain ms' where ms': "snd (notify_professor (contract_recording sc) ck (contract_iso ck ce)
                (contract_blocked ck (contract_iso ck ce)) (pc_professor_email req) usr ([?u, ?f] @ ms))
               = ([?u, ?f] @ ms) @ ms'"
        using notify_professor_trace by blast
      show ?thesis
        using ms ms'
        by (auto simp: patch_aluno_contract_def assms u Value contract_recording_simps Let_def
              split: prod.splits)
    qed (simp_all add: patch_aluno_contract_def assms Value contract_recording_simps Let_def)
  qed (simp_all add: patch_aluno_contract_def assms contract_recording_simps Let_def)
qed

text \<open>
  Claim C3. A PATCH /alunos/:id/contract request whose \<^verbatim>\<open>contract_end\<close> is a valid
  date with time value \<open>t\<close> makes, as its first store call, the update of the user with
  \<^verbatim>\<open>blocked\<close> set to 1 when \<open>t\<close> is at most the current time and to 0 when it is later;
  when the update and the fetch succeed and the message inserts settle, the response
  carries the same flag. A read by GET /alunos/:id returns the row the store holds, so
  the flag is the stored one. (\<^verbatim>\<open>new Date\<close> of the ISO string of a valid date gives the
  same time value.)
\<close>

theorem blocked_flag_from_contract_end:
  assumes "pc_contract_end req = Some ce" and "ce \<noteq> []"
      and "date_parse ck ce = Some t" and "date_parse ck (to_iso ck t) = Some t"
  shows "(\<exists>rest. snd (patch_aluno_contract (contract_recording sc) ck req []) =
            Update_contract (pc_id req) (to_iso ck t) (if t \<le> now_ms ck then 1 else 0) # rest)
       \<and> (throw_on_error (update_result sc) = Value d
          \<and> throw_on_error (fetch_result sc) = Value usr
          \<and> (\<forall>m. insert_result sc m \<noteq> Pending)
         \<longrightarrow> fst (patch_aluno_contract (contract_recording sc) ck req []) =
               Respond 200 (Ok \<lparr> r_id = pc_id req, r_contract_end = to_iso ck t,
                                 r_blocked = (if t \<le> now_ms ck then 1 else 0) \<rparr>))
       \<and> (idp \<noteq> [] \<and> parseInt10 (trim (takeWhile (\<lambda>c. c \<noteq> CHR '':'') idp)) = Some i \<and> i \<noteq> 0
          \<and> lookup i = Resolved (Some u) None
         \<longrightarrow> get_aluno lookup idp = Respond 200 (Ok u))"
proof -
  have ce: "or_null (pc_contract_end req) = Some ce"
    using assms(1,2) by (simp add: or_null_def truthy_def)
  have iso: "contract_iso ck ce = to_iso ck t"
    using assms(3) by (simp add: contract_iso_def)
  have blk: "contract_blocked ck (to_iso ck t) = (t \<le> now_ms ck)"
    using assms(4) by (simp add: contract_blocked_def)
  have first: "\<exists>rest. snd (patch_aluno_contract (contract_recording sc) ck req []) =
            Update_contract (pc_id req) (to_iso ck t) (if t \<le> now_ms ck then 1 else 0) # rest"
    using patch_first_call [OF ce, of sc ck] by (simp add: iso blk)
  have resp: "throw_on_error (update_result sc) = Value d
          \<and> throw_on_error (fetch_result sc) = Value usr
          \<and> (\<forall>m. insert_result sc m \<noteq> Pending)
         \<longrightarrow> fst (patch_aluno_contract (contract_recording sc) ck req []) =
               Respond 200 (Ok \<lparr> r_id = pc_id req, r_contract_end = to_iso ck t,
                                 r_blocked = (if t \<le> now_ms ck then 1 else 0) \<rparr>)"
    by (simp add: patch_response_when_inserts_settle ce iso blk)
  have read: "idp \<noteq> [] \<and> parseInt10 (trim (takeWhile (\<lambda>c. c \<noteq> CHR '':'') idp)) = Some i \<and> i \<noteq> 0
          \<and> lookup i = Resolved (Some u) None
         \<longrightarrow> get_aluno lookup idp = Respond 200 (Ok u)"
    by (simp add: get_aluno_def)
  from first resp read show ?thesis by blast
qed

text \<open>The theorem at a past and a future date.\<close>

theorem blocked_flag_from_contract_end_witness:
  "fst (patch_aluno_contract (contract_recording script_insert_works) example_clock
          \<lparr> pc_id = ''5'', pc_contract_end = Some ''2020-01-01'', pc_professor_email = None \<rparr> [])
     = Respond 200 (Ok \<lparr> r_id = ''5'', r_contract_end = ''2020-01-01T00:00:00.000Z'', r_blocked = 1 \<rparr>)
   \<and> fst (patch_aluno_contract (contract_recording script_insert_works) example_clock
          \<lparr> pc_id = ''5'', pc_contract_end = Some ''2099-01-01'', pc_professor_email = None \<rparr> [])
     = Respond 200 (Ok \<lparr> r_id = ''5'', r_contract_end = ''2099-01-01T00:00:00.000Z'', r_blocked = 0 \<rparr>)"
  using blocked_flag_from_contract_end
    [of "\<lparr> pc_id = ''5'', pc_contract_end = Some ''2020-01-01'', pc_professor_email = None \<rparr>"
        "''2020-01-01''" example_clock 1577836800000 script_insert_works None "Some example_user"]
    blocked_flag_from_contract_end
    [of "\<lparr> pc_id = ''5'', pc_contract_end = Some ''2099-01-01'', pc_professor_email = None \<rparr>"
        "''2099-01-01''" example_clock 4070908800000 script_insert_works None "Some example_user"]
  by (simp add: example_clock_def script_insert_works_def)

lemma find_filter_head:
  "find P xs = Some u \<Longrightarrow> \<exists>rest. filter P xs = u # rest"
  by (induction xs) (auto split: if_splits)

lemma filter_empty_iff_none: "filter P xs = [] \<longleftrightarrow> \<not> (\<exists>x\<in>set xs. P x)"
  by (simp add: filter_empty_conv)

lemma post_login_on_table:
  assumes "email \<noteq> []" and "senha \<noteq> []"
  shows "post_login (users_query rows) (Some email) (Some senha) =
           (case filter (\<lambda>u. u_email u = email \<and> u_senha u = senha) rows of
              [] \<Rightarrow> Respond 401 (Fail E_credenciais_invalidas None)
            | u # _ \<Rightarrow> Respond 200 (Ok u))"
  using assms by (simp add: post_login_def users_query_def or_null_def truthy_def or_empty_def)

text \<open>
  Claim C4. For a non-empty email and password and a users table that answers the
  query: when a row with exactly that email and password exists, POST /login responds
  200 with the first such row and not with the invalid-credentials error; when no row
  matches, it responds 401 with the invalid-credentials error, and the response is the
  same whether the email is absent from the table or only the password differs.
\<close>

theorem login_credentials:
  assumes "email \<noteq> []" and "senha \<noteq> []"
  shows "(\<forall>u. find (\<lambda>u. u_email u = email \<and> u_senha u = senha) rows = Some u \<longrightarrow>
            post_login (users_query rows) (Some email) (Some senha) = Respond 200 (Ok u))
       \<and> ((\<exists>u\<in>set rows. u_email u = email \<and> u_senha u = senha) \<longrightarrow>
            post_login (users_query rows) (Some email) (Some senha)
              \<noteq> Respond 401 (Fail E_credenciais_invalidas None))
       \<and> (\<not> (\<exists>u\<in>set rows. u_email u = email \<and> u_senha u = senha) \<longrightarrow>
            post_login (users_query rows) (Some email) (Some senha)
              = Respond 401 (Fail E_credenciais_invalidas None))
       \<and> ((\<forall>u\<in>set absent. u_email u \<noteq> email) \<and>
           (\<forall>u\<in>set wrong. u_email u = email \<longrightarrow> u_senha u \<noteq> senha) \<longrightarrow>
            post_login (users_query absent) (Some email) (Some senha)
              = post_login (users_query wrong) (Some email) (Some senha))"
proof -
  let ?P = "\<lambda>u::user. u_email u = email \<and> u_senha u = senha"
  note on_table = post_login_on_table [OF assms]
  have a: "\<forall>u. find ?P rows = Some u \<longrightarrow>
            post_login (users_query rows) (Some email) (Some senha) = Respond 200 (Ok u)"
  proof (intro allI impI)
    fix u assume f: "find ?P rows = Some u"
    obtain rest where "filter ?P rows = u # rest"
      using find_filter_head [OF f] by auto
    then show "post_login (users_query rows) (Some email) (Some senha) = Respond 200 (Ok u)"
      by (simp add: on_table)
  qed
  have b: "(\<exists>u\<in>set rows. ?P u) \<longrightarrow>
            post_login (users_query rows) (Some email) (Some senha)
              \<noteq> Respond 401 (Fail E_credenciais_invalidas None)"
  proof
    assume "\<exists>u\<in>set rows. ?P u"
    then have "filter ?P rows \<noteq> []" by (simp add: filter_empty_conv)
    then show "post_login (users_query rows) (Some email) (Some senha)
              \<noteq> Respond 401 (Fail E_credenciais_invalidas None)"
      by (cases "filter ?P rows") (simp_all add: on_table)
  qed
  have c: "post_login (users_query rs) (Some email) (Some senha)
              = Respond 401 (Fail E_credenciais_invalidas None)"
    if "\<not> (\<exists>u\<in>set rs. ?P u)" for rs :: "user list"
  proof -
    from that have "filter ?P rs = []" by (simp add: filter_empty_conv)
    then show ?thesis by (simp add: on_table)
  qed
  have d: "(\<forall>u\<in>set absent. u_email u \<noteq> email) \<and>
           (\<forall>u\<in>set wrong. u_email u = email \<longrightarrow> u_senha u \<noteq> senha) \<longrightarrow>
            post_login (users_query absent) (Some email) (Some senha)
              = post_login (users_query wrong) (Some email) (Some senha)"
  proof
    assume h: "(\<forall>u\<in>set absent. u_email u \<noteq> email) \<and>
           (\<forall>u\<in>set wrong. u_email u = email \<longrightarrow> u_senha u \<noteq> senha)"
    then have "\<not> (\<exists>u\<in>set absent. ?P u)" "\<not> (\<exists>u\<in>set wrong. ?P u)" by auto
    then show "post_login (users_query absent) (Some email) (Some senha)
              = post_login (users_query wrong) (Some email) (Some senha)"
      by (simp add: c)
  qed
  from a b c [of rows] d show ?thesis by blast
qed

text \<open>
  The theorem at a table with two matching rows, at the empty table and at a table where
  only the password differs.
\<close>

theorem login_credentials_witness:
  "post_login (users_query
      [\<lparr> u_id = 1, u_nome = ''Ana'', u_email = ''ana@x.com'', u_senha = ''p1'', u_tipo = ''aluno'',
         u_criado_por = None, u_contract_end = None, u_blocked = None \<rparr>,
       \<lparr> u_id = 2, u_nome = ''Ana B'', u_email = ''ana@x.com'', u_senha = ''p1'', u_tipo = ''aluno'',
         u_criado_por = None, u_contract_end = None, u_blocked = None \<rparr>])
      (Some ''ana@x.com'') (Some ''p1'')
     = Respond 200 (Ok \<lparr> u_id = 1, u_nome = ''Ana'', u_email = ''ana@x.com'', u_senha = ''p1'',
                         u_tipo = ''aluno'', u_criado_por = None, u_contract_end = None,
                         u_blocked = None \<rparr>)
   \<and> post_login (users_query []) (Some ''ana@x.com'') (Some ''p1'')
     = Respond 401 (Fail E_credenciais_invalidas None)
   \<and> post_login (users_query
      [\<lparr> u_id = 1, u_nome = ''Ana'', u_email = ''ana@x.com'', u_senha = ''p2'', u_tipo = ''aluno'',
         u_criado_por = None, u_contract_end = None, u_blocked = None \<rparr>])
      (Some ''ana@x.com'') (Some ''p1'')
     = Respond 401 (Fail E_credenciais_invalidas None)"
  using login_credentials
    [of "''ana@x.com''" "''p1''"
        "[\<lparr> u_id = 1, u_nome = ''Ana'', u_email = ''ana@x.com'', u_senha = ''p1'', u_tipo = ''aluno'',
            u_criado_por = None, u_contract_end = None, u_blocked = None \<rparr>,
          \<lparr> u_id = 2, u_nome = ''Ana B'', u_email = ''ana@x.com'', u_senha = ''p1'', u_tipo = ''aluno'',
            u_criado_por = None, u_contract_end = None, u_blocked = None \<rparr>]"
        "[]"
        "[\<lparr> u_id = 1, u_nome = ''Ana'', u_email = ''ana@x.com'', u_senha = ''p2'', u_tipo = ''aluno'',
            u_criado_por = None, u_contract_end = None, u_blocked = None \<rparr>]"]
    login_credentials [of "''ana@x.com''" "''p1''" "[]" "[]" "[]"]
  by simp


lemma enrich_feed_store_of:
  "enrich (feed_store_of t) p = Fulfilled (enriched_of t p)"
  by (simp add: enrich_def feed_store_of_def enriched_of_def or_empty_def)

lemma promise_all_fulfilled:
  "promise_all (map (\<lambda>x. Fulfilled (f x)) xs) = Fulfilled (map f xs)"
proof -
  have a: "first_failed (map (\<lambda>x. Fulfilled (f x)) xs) = None"
    by (induction xs) simp_all
  have b: "all_fulfilled (map (\<lambda>x. Fulfilled (f x)) xs) = Some (map f xs)"
    by (induction xs) simp_all
  show ?thesis by (simp add: promise_all_def a b)
qed

lemma feed_on_tables:
  "get_posts_feed (feed_store_of t) l off =
     Respond 200 (Ok (map (enriched_of t)
        (rows_range (feed_offset (parseInt off))
                    (feed_offset (parseInt off) + feed_limit (parseInt l) - 1)
                    (newest_first (posts t)))))"
proof -
  have e: "enrich (feed_store_of t) = (\<lambda>p. Fulfilled (enriched_of t p))"
    by (rule ext) (rule enrich_feed_store_of)
  have pp: "\<And>a b. posts_page (feed_store_of t) a b =
                Resolved (Some (rows_range a b (newest_first (posts t)))) None"
    by (simp add: feed_store_of_def)
  show ?thesis
    by (simp add: get_posts_feed_def Let_def pp e promise_all_fulfilled or_empty_def)
qed

lemma newest_first_sorted:
  "sorted_wrt (\<lambda>a b. criado_em b \<le> criado_em a) (newest_first ps)"
proof -
  have "sorted (map (\<lambda>p. - criado_em p) (newest_first ps))"
    by (simp add: newest_first_def)
  then show ?thesis
    by (simp add: sorted_wrt_map sorted_wrt_iff_nth_less)
qed

lemma sorted_wrt_take_drop:
  "sorted_wrt R xs \<Longrightarrow> sorted_wrt R (take n (drop m xs))"
  by (simp add: sorted_wrt_drop sorted_wrt_take)

lemma parseInt_150: "parseInt ''150'' = Some 150"
  by (simp add: parseInt_def strip_sign_def strip_radix_def is_ws_def digit_of_def)

lemma parseInt_minus_5: "parseInt ''-5'' = Some (- 5)"
  by (simp add: parseInt_def strip_sign_def strip_radix_def is_ws_def digit_of_def)

lemma parseInt_0: "parseInt ''0'' = Some 0"
  by (simp add: parseInt_def strip_sign_def strip_radix_def is_ws_def digit_of_def)

text \<open>
  Claim C5 as stated fails: the limit is not clamped to the interval from 0 to 100. A
  limit of \<^verbatim>\<open>-5\<close> stays negative, and a limit of \<^verbatim>\<open>0\<close> becomes the default 20.
\<close>

theorem feed_limit_counterexample:
  "\<not> (0 \<le> feed_limit (parseInt ''-5'')) \<and> feed_limit (parseInt ''0'') \<noteq> max 0 (min 100 0)"
  by (simp add: parseInt_minus_5 parseInt_0 feed_limit_def num_or_def)

text \<open>
  Claim C5, amended. The limit is at most 100: a limit of at least 1 is capped at 100
  (so \<^verbatim>\<open>150\<close> behaves as 100), and a limit that is 0 or not a number is replaced by
  20. The offset is raised to 0 when negative or not a number (so \<^verbatim>\<open>-5\<close> behaves as
  0). With an effective limit of at least 1 and a store that answers from its tables,
  the response is the requested slice of the posts sorted by creation time descending,
  and an offset at or past the number of posts gives the empty list with status 200.
\<close>

theorem feed_pagination:
  "feed_limit p \<le> 100
   \<and> (\<forall>n. p = Some n \<and> 1 \<le> n \<longrightarrow> feed_limit p = min n 100)
   \<and> (p = None \<or> p = Some 0 \<longrightarrow> feed_limit p = 20)
   \<and> feed_offset q = max 0 (case q of None \<Rightarrow> 0 | Some n \<Rightarrow> n)
   \<and> feed_limit (parseInt ''150'') = 100
   \<and> feed_offset (parseInt ''-5'') = 0
   \<and> (1 \<le> feed_limit (parseInt l) \<longrightarrow>
        get_posts_feed (feed_store_of t) l off =
          Respond 200 (Ok (map (enriched_of t)
            (take (nat (feed_limit (parseInt l)))
               (drop (nat (feed_offset (parseInt off))) (newest_first (posts t))))))
      \<and> sorted_wrt (\<lambda>a b. criado_em b \<le> criado_em a)
            (take (nat (feed_limit (parseInt l)))
               (drop (nat (feed_offset (parseInt off))) (newest_first (posts t))))
      \<and> (int (length (posts t)) \<le> feed_offset (parseInt off) \<longrightarrow>
            get_posts_feed (feed_store_of t) l off = Respond 200 (Ok [])))"
proof -
  have lim: "feed_limit p \<le> 100"
       "\<forall>n. p = Some n \<and> 1 \<le> n \<longrightarrow> feed_limit p = min n 100"
       "p = None \<or> p = Some 0 \<longrightarrow> feed_limit p = 20"
    by (auto simp: feed_limit_def num_or_def)
  have ofs: "feed_offset q = max 0 (case q of None \<Rightarrow> 0 | Some n \<Rightarrow> n)"
    by (auto simp: feed_offset_def num_or_def split: option.splits)
  have ex: "feed_limit (parseInt ''150'') = 100" "feed_offset (parseInt ''-5'') = 0"
    by (simp_all add: parseInt_150 parseInt_minus_5 feed_limit_def feed_offset_def num_or_def)
  have len: "length (newest_first (posts t)) = length (posts t)"
    by (simp add: newest_first_def)
  have page: "get_posts_feed (feed_store_of t) l off =
          Respond 200 (Ok (map (enriched_of t)
            (take (nat (feed_limit (parseInt l)))
               (drop (nat (feed_offset (parseInt off))) (newest_first (posts t))))))"
    by (simp add: feed_on_tables rows_range_def)
  have srt: "sorted_wrt (\<lambda>a b. criado_em b \<le> criado_em a)
            (take (nat (feed_limit (parseInt l)))
               (drop (nat (feed_offset (parseInt off))) (newest_first (posts t))))"
    by (rule sorted_wrt_take_drop) (rule newest_first_sorted)
  have past: "int (length (posts t)) \<le> feed_offset (parseInt off) \<longrightarrow>
            get_posts_feed (feed_store_of t) l off = Respond 200 (Ok [])"
    by (simp add: page len)
  show ?thesis
    using lim ofs ex page srt past by blast
qed

text \<open>The theorem at limit 150 with offsets \<^verbatim>\<open>-5\<close> and \<^verbatim>\<open>0x2\<close> on a table of two posts.\<close>

theorem feed_pagination_witness:
  "(1::int) \<le> feed_limit (parseInt ''150'')
   \<and> get_posts_feed (feed_store_of
        \<lparr> posts = [\<lparr> post_id = 1, autor_email = ''a@x.com'', conteudo = ''one'', criado_em = 10 \<rparr>,
                   \<lparr> post_id = 2, autor_email = ''b@x.com'', conteudo = ''two'', criado_em = 20 \<rparr>],
          curtidas_of = (\<lambda>_. 0), comentarios = [] \<rparr>) ''150'' ''-5''
     = Respond 200 (Ok
        [\<lparr> the_post = \<lparr> post_id = 2, autor_email = ''b@x.com'', conteudo = ''two'', criado_em = 20 \<rparr>,
           curtidas_count = 0, comentarios_count = 0, comentarios_preview = [] \<rparr>,
         \<lparr> the_post = \<lparr> post_id = 1, autor_email = ''a@x.com'', conteudo = ''one'', criado_em = 10 \<rparr>,
           curtidas_count = 0, comentarios_count = 0, comentarios_preview = [] \<rparr>])
   \<and> get_posts_feed (feed_store_of
        \<lparr> posts = [\<lparr> post_id = 1, autor_email = ''a@x.com'', conteudo = ''one'', criado_em = 10 \<rparr>,
                   \<lparr> post_id = 2, autor_email = ''b@x.com'', conteudo = ''two'', criado_em = 20 \<rparr>],
          curtidas_of = (\<lambda>_. 0), comentarios = [] \<rparr>) ''150'' ''0x2''
     = Respond 200 (Ok [])"
  using feed_pagination
    [of "Some 150" "Some (- 5)" "''150''"
        "\<lparr> posts = [\<lparr> post_id = 1, autor_email = ''a@x.com'', conteudo = ''one'', criado_em = 10 \<rparr>,
                   \<lparr> post_id = 2, autor_email = ''b@x.com'', conteudo = ''two'', criado_em = 20 \<rparr>],
          curtidas_of = (\<lambda>_. 0), comentarios = [] \<rparr>" "''-5''"]
    feed_pagination
    [of "Some 150" "Some 2" "''150''"
        "\<lparr> posts = [\<lparr> post_id = 1, autor_email = ''a@x.com'', conteudo = ''one'', criado_em = 10 \<rparr>,
                   \<lparr> post_id = 2, autor_email = ''b@x.com'', conteudo = ''two'', criado_em = 20 \<rparr>],
          curtidas_of = (\<lambda>_. 0), comentarios = [] \<rparr>" "''0x2''"]
  by (simp add: parseInt_150 parseInt_minus_5 feed_limit_def feed_offset_def num_or_def
        newest_first_def enriched_of_def comments_of_def
        parseInt_def strip_sign_def strip_radix_def is_ws_def digit_of_def)

text \<open>
  Claim C6 at a failing input. POST /alunos with email \<^verbatim>\<open>ANA@X.com\<close> stores the user
  under \<^verbatim>\<open>ana@x.com\<close>: handleCreateAluno trims and lowercases the email. POST /login
  passes the email to the query as it came, so the same \<^verbatim>\<open>ANA@X.com\<close> with the right
  password finds no row and gets 401, while \<^verbatim>\<open>ana@x.com\<close> logs in.
\<close>

theorem login_after_create_mixed_case:
  "handleCreateAluno people_table ''t0''
     \<lparr> ab_nome = Some ''Ana'', ab_email = Some ''ANA@X.com'', ab_senha = Some ''p1'',
       ab_tipo = None, ab_contract_end = None, ab_contractEnd = None,
       ab_criado_por = Some ''Prof@X.com'', ab_criadoPor = None, ab_criado_by = None \<rparr>
     \<lparr> users = [], alunos = [] \<rparr>
   = (Respond 200 (Ok \<lparr> u_id = 1, u_nome = ''Ana'', u_email = ''ana@x.com'', u_senha = ''p1'',
                        u_tipo = ''aluno'', u_criado_por = Some ''prof@x.com'',
                        u_contract_end = None, u_blocked = None \<rparr>),
      \<lparr> users = [\<lparr> u_id = 1, u_nome = ''Ana'', u_email = ''ana@x.com'', u_senha = ''p1'',
                   u_tipo = ''aluno'', u_criado_por = Some ''prof@x.com'',
                   u_contract_end = None, u_blocked = None \<rparr>],
        alunos = [\<lparr> ap_email = ''ana@x.com'', ap_nome = ''Ana'',
                    ap_professor_email = Some ''prof@x.com'', ap_criado_em = ''t0'' \<rparr>] \<rparr>)
   \<and> post_login (users_query
        [\<lparr> u_id = 1, u_nome = ''Ana'', u_email = ''ana@x.com'', u_senha = ''p1'',
           u_tipo = ''aluno'', u_criado_por = Some ''prof@x.com'',
           u_contract_end = None, u_blocked = None \<rparr>])
        (Some ''ANA@X.com'') (Some ''p1'')
     = Respond 401 (Fail E_credenciais_invalidas None)
   \<and> post_login (users_query
        [\<lparr> u_id = 1, u_nome = ''Ana'', u_email = ''ana@x.com'', u_senha = ''p1'',
           u_tipo = ''aluno'', u_criado_por = Some ''prof@x.com'',
           u_contract_end = None, u_blocked = None \<rparr>])
        (Some ''ana@x.com'') (Some ''p1'')
     = Respond 200 (Ok \<lparr> u_id = 1, u_nome = ''Ana'', u_email = ''ana@x.com'', u_senha = ''p1'',
                        u_tipo = ''aluno'', u_criado_por = Some ''prof@x.com'',
                        u_contract_end = None, u_blocked = None \<rparr>)"
  by (simp add: handleCreateAluno_def people_table_def aluno_payload_def criado_por_of_def new_user_def
        post_login_def users_query_def or_null_def or_else_def truthy_def or_empty_def
        toLowerCase_def trim_def lower_char_def is_ws_def)

text \<open>
  What holds of the two handlers that notify. In POST /treinos/:id/concluir the response
  is decided by the insert of the progress row alone: the lookup of the student and the
  message insert sit inside one \<^verbatim>\<open>try\<close>, and whatever they answer, by error or by
  throwing, the response is the same. In PATCH /alunos/:id/contract the response is
  decided by the update and by the fetch of the user; the message inserts do not change
  it. All awaits of the notification are taken to settle.
\<close>

lemma notification_failure_keeps_response:
  "(update_result sc = update_result sc' \<and> fetch_result sc = fetch_result sc'
      \<and> (\<forall>m. insert_result sc m \<noteq> Pending \<and> insert_result sc' m \<noteq> Pending)
     \<longrightarrow> fst (patch_aluno_contract (contract_recording sc) ck req tr)
           = fst (patch_aluno_contract (contract_recording sc') ck req tr))
   \<and> (or_null (pc_contract_end req) = Some ce
      \<and> throw_on_error (update_result sc) = Value d
      \<and> throw_on_error (fetch_result sc) = Value usr
      \<and> (\<forall>m. insert_result sc m \<noteq> Pending)
     \<longrightarrow> fst (patch_aluno_contract (contract_recording sc) ck req tr)
           = Respond 200
               (Ok \<lparr> r_id = pc_id req, r_contract_end = contract_iso ck ce,
                     r_blocked = (if contract_blocked ck (contract_iso ck ce) then 1 else 0) \<rparr>))
   \<and> (progresso_result cs = progresso_result cs'
      \<and> user_result cs \<noteq> Pending \<and> user_result cs' \<noteq> Pending
      \<and> (\<forall>m. send_result cs m \<noteq> Pending \<and> send_result cs' m \<noteq> Pending)
     \<longrightarrow> fst (post_treino_concluir (concluir_recording cs) t1 t2 rq ctr)
           = fst (post_treino_concluir (concluir_recording cs') t1 t2 rq ctr))
   \<and> (cq_treino_id rq \<noteq> [] \<and> or_null (cq_aluno_email rq) = Some ae
      \<and> throw_on_error (progresso_result cs) = Value dp
      \<and> user_result cs \<noteq> Pending
      \<and> (\<forall>m. send_result cs m \<noteq> Pending)
     \<longrightarrow> fst (post_treino_concluir (concluir_recording cs) t1 t2 rq ctr)
           = Respond 200 (Ok (or_empty dp)))"
proof (intro conjI impI)
  assume h: "update_result sc = update_result sc' \<and> fetch_result sc = fetch_result sc'
      \<and> (\<forall>m. insert_result sc m \<noteq> Pending \<and> insert_result sc' m \<noteq> Pending)"
  then have a: "\<forall>m. insert_result sc m \<noteq> Pending" and b: "\<forall>m. insert_result sc' m \<noteq> Pending"
    by simp_all
  from h have e: "update_result sc = update_result sc'" "fetch_result sc = fetch_result sc'"
    by simp_all
  show "fst (patch_aluno_contract (contract_recording sc) ck req tr)
           = fst (patch_aluno_contract (contract_recording sc') ck req tr)"
    unfolding patch_response_when_inserts_settle [OF a] patch_response_when_inserts_settle [OF b] e
    by (rule refl)
next
  assume "or_null (pc_contract_end req) = Some ce
      \<and> throw_on_error (update_result sc) = Value d
      \<and> throw_on_error (fetch_result sc) = Value usr
      \<and> (\<forall>m. insert_result sc m \<noteq> Pending)"
  then show "fst (patch_aluno_contract (contract_recording sc) ck req tr)
           = Respond 200
               (Ok \<lparr> r_id = pc_id req, r_contract_end = contract_iso ck ce,
                     r_blocked = (if contract_blocked ck (contract_iso ck ce) then 1 else 0) \<rparr>)"
    by (simp add: patch_response_when_inserts_settle)
next
  assume h: "progresso_result cs = progresso_result cs'
      \<and> user_result cs \<noteq> Pending \<and> user_result cs' \<noteq> Pending
      \<and> (\<forall>m. send_result cs m \<noteq> Pending \<and> send_result cs' m \<noteq> Pending)"
  then have a: "user_result cs \<noteq> Pending" "\<forall>m. send_result cs m \<noteq> Pending"
        and b: "user_result cs' \<noteq> Pending" "\<forall>m. send_result cs' m \<noteq> Pending"
    by simp_all
  from h have e: "progresso_result cs = progresso_result cs'"
    by simp
  show "fst (post_treino_concluir (concluir_recording cs) t1 t2 rq ctr)
           = fst (post_treino_concluir (concluir_recording cs') t1 t2 rq ctr)"
    unfolding concluir_response_when_notification_settles [OF a]
      concluir_response_when_notification_settles [OF b] e
    by (rule refl)
next
  assume "cq_treino_id rq \<noteq> [] \<and> or_null (cq_aluno_email rq) = Some ae
      \<and> throw_on_error (progresso_result cs) = Value dp
      \<and> user_result cs \<noteq> Pending
      \<and> (\<forall>m. send_result cs m \<noteq> Pending)"
  then show "fst (post_treino_concluir (concluir_recording cs) t1 t2 rq ctr)
           = Respond 200 (Ok (or_empty dp))"
    by (simp add: concluir_response_when_notification_settles)
qed

text \<open>The lemma at stores whose message inserts fail, by error and by throwing.\<close>

lemma notification_failure_keeps_response_example:
  "fst (patch_aluno_contract (contract_recording script_insert_fails) example_clock
          \<lparr> pc_id = ''5'', pc_contract_end = Some ''2020-01-01'', pc_professor_email = None \<rparr> [])
     = Respond 200 (Ok \<lparr> r_id = ''5'', r_contract_end = ''2020-01-01T00:00:00.000Z'', r_blocked = 1 \<rparr>)
   \<and> fst (patch_aluno_contract (contract_recording script_insert_works) example_clock
          \<lparr> pc_id = ''5'', pc_contract_end = Some ''2020-01-01'', pc_professor_email = None \<rparr> [])
     = fst (patch_aluno_contract (contract_recording script_insert_fails) example_clock
          \<lparr> pc_id = ''5'', pc_contract_end = Some ''2020-01-01'', pc_professor_email = None \<rparr> [])
   \<and> fst (post_treino_concluir (concluir_recording concluir_send_throws) ''t1'' ''t2''
          \<lparr> cq_treino_id = ''9'', cq_aluno_email = Some '' Ana@X.com'', cq_peso_corporal = Some 70,
            cq_loads = None, cq_dados = None \<rparr> [])
     = Respond 200 (Ok [1])
   \<and> fst (post_treino_concluir (concluir_recording concluir_send_works) ''t1'' ''t2''
          \<lparr> cq_treino_id = ''9'', cq_aluno_email = Some '' Ana@X.com'', cq_peso_corporal = Some 70,
            cq_loads = None, cq_dados = None \<rparr> [])
     = fst (post_treino_concluir (concluir_recording concluir_send_throws) ''t1'' ''t2''
          \<lparr> cq_treino_id = ''9'', cq_aluno_email = Some '' Ana@X.com'', cq_peso_corporal = Some 70,
            cq_loads = None, cq_dados = None \<rparr> [])"
  using notification_failure_keeps_response
    [of script_insert_works script_insert_fails example_clock
        "\<lparr> pc_id = ''5'', pc_contract_end = Some ''2020-01-01'', pc_professor_email = None \<rparr>"
        "[]" "''2020-01-01''" None "Some example_user"
        concluir_send_works concluir_send_throws "''t1''" "''t2''"
        "\<lparr> cq_treino_id = ''9'', cq_aluno_email = Some '' Ana@X.com'', cq_peso_corporal = Some 70,
           cq_loads = None, cq_dados = None \<rparr>" "[]" "'' Ana@X.com''" "Some [1]"]
    notification_failure_keeps_response
    [of script_insert_fails script_insert_fails example_clock
        "\<lparr> pc_id = ''5'', pc_contract_end = Some ''2020-01-01'', pc_professor_email = None \<rparr>"
        "[]" "''2020-01-01''" None "Some example_user"
        concluir_send_throws concluir_send_throws "''t1''" "''t2''"
        "\<lparr> cq_treino_id = ''9'', cq_aluno_email = Some '' Ana@X.com'', cq_peso_corporal = Some 70,
           cq_loads = None, cq_dados = None \<rparr>" "[]" "'' Ana@X.com''" "Some [1]"]
  by (simp add: example_clock_def script_insert_works_def script_insert_fails_def
        concluir_send_works_def concluir_send_throws_def or_null_def truthy_def or_empty_def
        contract_iso_def contract_blocked_def)

text \<open>
  Claim C7 at a failing input. In PATCH /alunos/:id/contract the user is fetched for the
  notification after the update and outside the \<^verbatim>\<open>try\<close> blocks, and an error of that
  fetch is thrown: the update has been made, no message insert is attempted, and the
  response is 500. POST /treinos/:id/concluir, whose lookup of the student is inside the
  \<^verbatim>\<open>try\<close>, answers 200 when that lookup fails.
\<close>

theorem contract_fetch_failure_answers_500:
  "patch_aluno_contract (contract_recording script_fetch_fails) example_clock
      \<lparr> pc_id = ''5'', pc_contract_end = Some ''2020-01-01'', pc_professor_email = None \<rparr> []
     = (Respond 500 (Fail E_atualizar_contrato (Some ''permission denied'')),
        [Update_contract ''5'' ''2020-01-01T00:00:00.000Z'' 1, Fetch_user ''5''])
   \<and> post_treino_concluir (concluir_recording concluir_lookup_fails) ''t1'' ''t2''
          \<lparr> cq_treino_id = ''9'', cq_aluno_email = Some '' Ana@X.com'', cq_peso_corporal = Some 70,
            cq_loads = None, cq_dados = None \<rparr> []
     = (Respond 200 (Ok [1]),
        [Insert_progresso \<lparr> pg_aluno_email = ''ana@x.com'', pg_treino_id = ''9'',
                             pg_peso_corporal = Some 70, pg_loads = None, pg_dados = None,
                             pg_criado_em = ''t1'' \<rparr>,
         User_by_email ''ana@x.com''])"
  by (simp add: patch_aluno_contract_def post_treino_concluir_def notify_treino_def
        contract_recording_simps concluir_recording_simps script_fetch_fails_def
        concluir_lookup_fails_def example_clock_def example_failure_def
        contract_iso_def contract_blocked_def or_null_def truthy_def or_empty_def Let_def
        toLowerCase_def trim_def lower_char_def is_ws_def)

text \<open>
  Claim C8 at failing inputs. On the stand-in client, GET /users and GET /produtos await
  \<^verbatim>\<open>stubChain\<close> and never respond; POST /login runs into its 10 second timer; POST
  /contract-settings and PATCH /alunos/:id/contract answer 500 with the message of a
  \<^verbatim>\<open>TypeError\<close>. Only a chain that ends in a method bound to \<^verbatim>\<open>stubResponse\<close>, such as the
  feed's \<^verbatim>\<open>range\<close>, yields the not-configured error.
\<close>

theorem stub_client_hangs_or_throws:
  "get_users (stub_from [''select'']) = Hang
   \<and> fst (get_produtos stub_produtos_ops ()) = Hang
   \<and> post_login stub_login_query (Some ''ana@x.com'') (Some ''p1'')
       = Respond 500 (Fail E_timeout_banco (Some ''Query timeout - Supabase demorando demais''))
   \<and> fst (post_contract_settings stub_cs_ops ''t0''
            \<lparr> p_professor_email = Some ''prof@x.com'', p_aluno_email = Some ''ana@x.com'',
              p_professor_name = None, p_professor_cref = None,
              p_option1_value = None, p_option2_value = None \<rparr> ())
       = Respond 500 (Fail E_salvar_config (Some ''supabase.from(...).upsert(...).select is not a function''))
   \<and> fst (patch_aluno_contract stub_contract_ops example_clock
            \<lparr> pc_id = ''5'', pc_contract_end = Some ''2020-01-01'', pc_professor_email = None \<rparr> ())
       = Respond 500 (Fail E_atualizar_contrato (Some ''supabase.from(...).update(...).eq is not a function''))
   \<and> get_posts_feed stub_feed_store ''10'' ''0''
       = Respond 500 (Fail E_carregar_posts (Some (err_message stub_error)))"
  by (simp add: get_users_def get_produtos_def stub_produtos_ops_def post_login_def
        stub_login_query_def post_contract_settings_def stub_cs_ops_def patch_aluno_contract_def
        stub_contract_ops_def get_posts_feed_def stub_feed_store_def stub_from_def
        or_null_def truthy_def Let_def)

text \<open>
  Claim C9. When the update of PATCH /alunos/:id/contract reports no error and the fetch
  by id finds no row, the response is 200 with the request's id, the normalised
  \<^verbatim>\<open>contract_end\<close> and the computed flag, and the only store calls are that update and
  that fetch: no message is inserted, even when the body names a professor.
\<close>

theorem unknown_id_still_succeeds:
  assumes "pc_contract_end req = Some ce" and "ce \<noteq> []"
      and "throw_on_error (update_result sc) = Value d"
      and "fetch_result sc = Resolved None None"
  shows "patch_aluno_contract (contract_recording sc) ck req [] =
           (Respond 200 (Ok \<lparr> r_id = pc_id req, r_contract_end = contract_iso ck ce,
                 r_blocked = (if contract_blocked ck (contract_iso ck ce) then 1 else 0) \<rparr>),
            [Update_contract (pc_id req) (contract_iso ck ce)
               (if contract_blocked ck (contract_iso ck ce) then 1 else 0),
             Fetch_user (pc_id req)])"
proof -
  have ce: "or_null (pc_contract_end req) = Some ce"
    using assms(1,2) by (simp add: or_null_def truthy_def)
  have n1: "\<And>e b tr. notify_user (contract_recording sc) ck e b None tr = (True, tr)"
    by (simp add: notify_user_def)
  have n2: "\<And>e b bp tr. notify_professor (contract_recording sc) ck e b bp None tr = (True, tr)"
    by (simp add: notify_professor_def split: option.splits)
  show ?thesis
    by (simp add: patch_aluno_contract_def ce assms(3,4) contract_recording_simps Let_def n1 n2)
qed

text \<open>The theorem at an id that no user has.\<close>

theorem unknown_id_still_succeeds_witness:
  "patch_aluno_contract (contract_recording script_no_user) example_clock
      \<lparr> pc_id = ''999'', pc_contract_end = Some ''2020-01-01'', pc_professor_email = Some ''prof@x.com'' \<rparr> []
     = (Respond 200 (Ok \<lparr> r_id = ''999'', r_contract_end = ''2020-01-01T00:00:00.000Z'', r_blocked = 1 \<rparr>),
        [Update_contract ''999'' ''2020-01-01T00:00:00.000Z'' 1, Fetch_user ''999''])"
  using unknown_id_still_succeeds
    [of "\<lparr> pc_id = ''999'', pc_contract_end = Some ''2020-01-01'', pc_professor_email = Some ''prof@x.com'' \<rparr>"
        "''2020-01-01''" script_no_user None example_clock]
  by (simp add: example_clock_def script_no_user_def contract_iso_def contract_blocked_def)

lemma sort_key_desc_head:
  assumes "sort_key (\<lambda>p. - ordem p) rows = p # ps"
  shows "p \<in> set rows \<and> (\<forall>q\<in>set rows. ordem q \<le> ordem p)"
proof -
  have s: "sorted (map (\<lambda>p. - ordem p) (p # ps))"
    using assms sorted_sort_key [of "\<lambda>p. - ordem p" rows] by simp
  have e: "set (p # ps) = set rows"
    using assms set_sort [of "\<lambda>p. - ordem p" rows] by simp
  from s have "\<forall>q\<in>set (p # ps). ordem q \<le> ordem p"
    by auto
  with e show ?thesis by auto
qed

lemma ultimo_produto_table:
  "ultimo_produto produtos_table rows =
     (if rows = []
      then Resolved None (Some \<lparr> err_code = Some ''PGRST116'',
                                 err_message = ''multiple (or no) rows returned'', err_details = None \<rparr>)
      else Resolved (Some (Some (Max (ordem ` set rows)))) None, rows)"
proof (cases "sort_key (\<lambda>p. - ordem p) rows")
  case Nil
  then have "rows = []"
    using length_sort [of "\<lambda>p. - ordem p" rows] by simp
  then show ?thesis by (simp add: produtos_table_def)
next
  case (Cons p ps)
  then have ne: "rows \<noteq> []" by auto
  from sort_key_desc_head [OF Cons]
  have "p \<in> set rows" "\<forall>q\<in>set rows. ordem q \<le> ordem p" by simp_all
  then have "Max (ordem ` set rows) = ordem p"
    by (intro Max_eqI) auto
  with Cons ne show ?thesis by (simp add: produtos_table_def)
qed

lemma novaOrdem_values:
  "novaOrdem None = 1" "novaOrdem (Some (Some m)) = m + 1"
  by (simp_all add: novaOrdem_def num_or_def)

lemma insort_key_before_last:
  "f y \<le> f x \<Longrightarrow> insort_key f y (zs @ [x]) = insort_key f y zs @ [x]"
  by (induction zs) auto

lemma sort_key_snoc_greatest:
  "\<forall>y\<in>set xs. f y \<le> f x \<Longrightarrow> sort_key f (xs @ [x]) = sort_key f xs @ [x]"
proof (induction xs)
  case Nil
  then show ?case by simp
next
  case (Cons a xs)
  then show ?case by (simp add: insort_key_before_last)
qed

text \<open>
  Claim C10. With the three required fields present and a store that answers every
  call from a table whose \<^verbatim>\<open>ordem\<close> values are integers, POST /produtos inserts a row
  whose \<^verbatim>\<open>ordem\<close> is 1 on an empty table and the maximum plus one otherwise, hence
  strictly greater than the \<^verbatim>\<open>ordem\<close> of every existing product; GET /produtos then
  lists the new product after all the others.
\<close>

theorem new_product_sorts_last:
  assumes "b_titulo req = Some t" and "t \<noteq> []"
      and "b_imagem_url req = Some img" and "img \<noteq> []"
      and "b_link_mercadolivre req = Some link" and "link \<noteq> []"
  shows "let new = stored (fresh_id rows)
                     \<lparr> np_titulo = trim t, np_imagem_url = img, np_link_mercadolivre = link,
                       np_ordem = (if rows = [] then 1 else Max (ordem ` set rows) + 1),
                       np_ativo = True, np_criado_em = now \<rparr>
         in post_produtos produtos_table now req rows = (Respond 200 (Ok (Some new)), rows @ [new])
          \<and> (\<forall>p\<in>set rows. ordem p < ordem new)
          \<and> fst (get_produtos produtos_table (rows @ [new])) =
              Respond 200 (Ok (sort_key ordem (filter ativo rows) @ [new]))"
proof -
  define new where "new = stored (fresh_id rows)
                     \<lparr> np_titulo = trim t, np_imagem_url = img, np_link_mercadolivre = link,
                       np_ordem = (if rows = [] then 1 else Max (ordem ` set rows) + 1),
                       np_ativo = True, np_criado_em = now \<rparr>"
  have fields: "or_null (b_titulo req) = Some t" "or_null (b_imagem_url req) = Some img"
       "or_null (b_link_mercadolivre req) = Some link"
    using assms by (simp_all add: or_null_def truthy_def)
  have ins: "\<And>np rs. insert_produto produtos_table np rs =
       (Resolved (Some (stored (fresh_id rs) np)) None, rs @ [stored (fresh_id rs) np])"
    by (simp add: produtos_table_def)
  have post: "post_produtos produtos_table now req rows = (Respond 200 (Ok (Some new)), rows @ [new])"
    unfolding new_def
    by (cases "rows = []")
       (simp_all add: post_produtos_def fields ultimo_produto_table ins novaOrdem_values)
  have ord: "ordem new = (if rows = [] then 1 else Max (ordem ` set rows) + 1)" "ativo new"
    by (simp_all add: new_def stored_def)
  have gt: "\<forall>p\<in>set rows. ordem p < ordem new"
  proof
    fix p assume p: "p \<in> set rows"
    then have "ordem p \<le> Max (ordem ` set rows)" by simp
    moreover from p have "rows \<noteq> []" by auto
    ultimately show "ordem p < ordem new" using ord(1) by simp
  qed
  have "sort_key ordem (filter ativo (rows @ [new])) = sort_key ordem (filter ativo rows) @ [new]"
    using gt ord(2) by (simp add: sort_key_snoc_greatest less_imp_le)
  then have get: "fst (get_produtos produtos_table (rows @ [new])) =
              Respond 200 (Ok (sort_key ordem (filter ativo rows) @ [new]))"
    by (simp add: get_produtos_def produtos_table_def or_empty_def)
  show ?thesis
    unfolding Let_def new_def [symmetric] using post gt get by simp
qed

text \<open>The theorem at a table of two products, one of them inactive.\<close>

theorem new_product_sorts_last_witness:
  "post_produtos produtos_table ''t9''
     \<lparr> b_titulo = Some '' Whey '', b_imagem_url = Some ''i.png'', b_link_mercadolivre = Some ''http://m/1'' \<rparr>
     [\<lparr> prod_id = 1, titulo = ''A'', imagem_url = ''a.png'', link_mercadolivre = ''http://m/a'',
        ordem = 4, ativo = True, prod_criado_em = ''t1'' \<rparr>,
      \<lparr> prod_id = 2, titulo = ''B'', imagem_url = ''b.png'', link_mercadolivre = ''http://m/b'',
        ordem = 2, ativo = False, prod_criado_em = ''t2'' \<rparr>]
   = (Respond 200 (Ok (Some
        \<lparr> prod_id = 3, titulo = ''Whey'', imagem_url = ''i.png'', link_mercadolivre = ''http://m/1'',
          ordem = 5, ativo = True, prod_criado_em = ''t9'' \<rparr>)),
      [\<lparr> prod_id = 1, titulo = ''A'', imagem_url = ''a.png'', link_mercadolivre = ''http://m/a'',
         ordem = 4, ativo = True, prod_criado_em = ''t1'' \<rparr>,
       \<lparr> prod_id = 2, titulo = ''B'', imagem_url = ''b.png'', link_mercadolivre = ''http://m/b'',
         ordem = 2, ativo = False, prod_criado_em = ''t2'' \<rparr>,
       \<lparr> prod_id = 3, titulo = ''Whey'', imagem_url = ''i.png'', link_mercadolivre = ''http://m/1'',
         ordem = 5, ativo = True, prod_criado_em = ''t9'' \<rparr>])"
  using new_product_sorts_last
    [of "\<lparr> b_titulo = Some '' Whey '', b_imagem_url = Some ''i.png'', b_link_mercadolivre = Some ''http://m/1'' \<rparr>"
        "'' Whey ''" "''i.png''" "''http://m/1''"
        "[\<lparr> prod_id = 1, titulo = ''A'', imagem_url = ''a.png'', link_mercadolivre = ''http://m/a'',
            ordem = 4, ativo = True, prod_criado_em = ''t1'' \<rparr>,
          \<lparr> prod_id = 2, titulo = ''B'', imagem_url = ''b.png'', link_mercadolivre = ''http://m/b'',
            ordem = 2, ativo = False, prod_criado_em = ''t2'' \<rparr>]" "''t9''"]
  by (simp add: Let_def stored_def fresh_id_def trim_def is_ws_def)

end
